theory Spec2Isabelle
  imports Complex_Main
begin

text \<open>
  A shallow embedding of the insurance platform \<open>app3.py\<close>: its database models, its helper
  functions and the views \<open>login\<close>, \<open>register\<close>, \<open>apply_policy\<close>, \<open>withdraw_policy\<close>,
  \<open>make_claim\<close>, \<open>report_transaction\<close> and \<open>complaints_feedback\<close>. A view is a function
  from the request, the session and the database to the response and the database as the
  request leaves it; a view that raises returns the database it was given.
\<close>

section \<open>Strings\<close>

text \<open>
  A Python \<open>str\<close> is modelled as a \<open>string\<close>: the bytes of its UTF-8 encoding, in which a
  lone surrogate code point (U+D800 to U+DFFF), which UTF-8 proper leaves out, is written
  in the same three-byte scheme (Python's error handler \<open>surrogatepass\<close>). Every \<open>str\<close>
  has exactly one such string, and two of them are equal exactly when their strings are.
  The three bytes of a surrogate are \<open>0xED\<close>, a byte from \<open>0xA0\<close> to \<open>0xBF\<close> and one more; in
  the bytes of every other code point \<open>0xED\<close> is followed by a byte below \<open>0xA0\<close>, and
  \<open>0xED\<close> is never the second or a later byte of a code point.
\<close>

fun has_surrogate :: "string \<Rightarrow> bool" where
  "has_surrogate (a # b # s) =
     ((a = CHR 0xED \<and> (0xA0::nat) \<le> of_char b \<and> of_char b \<le> (0xBF::nat)) \<or>
      has_surrogate (b # s))"
| "has_surrogate s = False"

text \<open>The character classes \<open>[A-Z]\<close> and \<open>[0-9]\<close> of a regular expression.\<close>

definition isupper_ascii :: "char \<Rightarrow> bool" where
  "isupper_ascii c = (c \<in> set ''ABCDEFGHIJKLMNOPQRSTUVWXYZ'')"

definition isdigit_ascii :: "char \<Rightarrow> bool" where
  "isdigit_ascii c = (c \<in> set ''0123456789'')"

text \<open>Decimal digits: \<open>pad2\<close> and \<open>pad4\<close> are the zero-padded fields of \<open>strftime\<close>,
  \<open>decimal\<close> is \<open>str\<close> of a non-negative integer.\<close>

definition digit :: "nat \<Rightarrow> char" where
  "digit d = ''0123456789'' ! (d mod 10)"

definition pad2 :: "int \<Rightarrow> string" where
  "pad2 n = [digit (nat (n div 10)), digit (nat n)]"

definition pad4 :: "int \<Rightarrow> string" where
  "pad4 n = [digit (nat (n div 1000)), digit (nat (n div 100)), digit (nat (n div 10)), digit (nat n)]"

fun decimal :: "nat \<Rightarrow> string" where
  "decimal n = (if n < 10 then [digit n] else decimal (n div 10) @ [digit n])"

section \<open>Exceptions\<close>

text \<open>
  The exceptions that the program meets. When one leaves a view function, Flask answers
  \<open>NotFound\<close> with status 404, \<open>BadRequestKeyError\<close> with 400 and every other one with 500,
  and the database session of the request is discarded without a commit.
\<close>

datatype exn =
    NotFound
  | BadRequestKeyError string
  | AttributeError
  | IntegrityError
  | OverflowError
  | ValueError
  | OSError
  | UnicodeEncodeError

text \<open>\<open>s.encode('utf-8')\<close>: the bytes of \<open>s\<close>, or \<open>UnicodeEncodeError\<close> when \<open>s\<close> holds a
  surrogate.\<close>

definition encode_utf8 :: "string \<Rightarrow> exn + string" where
  "encode_utf8 s = (if has_surrogate s then Inl UnicodeEncodeError else Inr s)"

section \<open>Dates and times\<close>

text \<open>
  \<open>datetime.date\<close> and \<open>datetime.datetime\<close> (a subclass of \<open>date\<close>) with the proleptic
  Gregorian ordinal of the standard library. A \<open>timedelta\<close> is its exact number of
  microseconds.
\<close>

record date =
  year :: int
  month :: int
  day :: int

record datetime = date +
  hour :: int
  minute :: int
  second :: int
  microsecond :: int

type_synonym timedelta = int

definition is_leap :: "int \<Rightarrow> bool" where
  "is_leap y = (y mod 4 = 0 \<and> (y mod 100 \<noteq> 0 \<or> y mod 400 = 0))"

definition days_before_year :: "int \<Rightarrow> int" where
  "days_before_year y = (y - 1) * 365 + (y - 1) div 4 - (y - 1) div 100 + (y - 1) div 400"

definition DAYS_IN_MONTH :: "int list" where
  "DAYS_IN_MONTH = [-1, 31, 28, 31, 30, 31, 30, 31, 31, 30, 31, 30, 31]"

definition DAYS_BEFORE_MONTH :: "int list" where
  "DAYS_BEFORE_MONTH = [-1, 0, 31, 59, 90, 120, 151, 181, 212, 243, 273, 304, 334]"

definition days_before_month :: "int \<Rightarrow> int \<Rightarrow> int" where
  "days_before_month y m = DAYS_BEFORE_MONTH ! nat m + (if m > 2 \<and> is_leap y then 1 else 0)"

definition ymd2ord :: "int \<Rightarrow> int \<Rightarrow> int \<Rightarrow> int" where
  "ymd2ord y m d = days_before_year y + days_before_month y m + d"

definition toordinal :: "'a date_scheme \<Rightarrow> int" where
  "toordinal d = ymd2ord (year d) (month d) (day d)"

definition MAXORDINAL :: int where
  "MAXORDINAL = 3652059"

definition ord2ymd :: "int \<Rightarrow> date" where
  "ord2ymd n0 =
     (let n = n0 - 1;
          n400 = n div 146097; r400 = n mod 146097;
          n100 = r400 div 36524; r100 = r400 mod 36524;
          n4 = r100 div 1461; r4 = r100 mod 1461;
          n1 = r4 div 365; r1 = r4 mod 365;
          y = n400 * 400 + 1 + n100 * 100 + n4 * 4 + n1
      in if n1 = 4 \<or> n100 = 4 then \<lparr>year = y - 1, month = 12, day = 31\<rparr>
         else
           let leapyear = (n1 = 3 \<and> (n4 \<noteq> 24 \<or> n100 = 3));
               m = (r1 + 50) div 32;
               preceding = DAYS_BEFORE_MONTH ! nat m + (if m > 2 \<and> leapyear then 1 else 0)
           in if preceding > r1
              then \<lparr>year = y, month = m - 1,
                    day = r1 - (preceding - (DAYS_IN_MONTH ! nat (m - 1)
                                  + (if m - 1 = 2 \<and> leapyear then 1 else 0))) + 1\<rparr>
              else \<lparr>year = y, month = m, day = r1 - preceding + 1\<rparr>)"

text \<open>\<open>date + timedelta(days=n)\<close>; \<open>None\<close> is Python's \<open>OverflowError\<close>.\<close>

definition date_add_days :: "date \<Rightarrow> int \<Rightarrow> date option" where
  "date_add_days d n =
     (let ordinal = toordinal d + n
      in if 0 < ordinal \<and> ordinal \<le> MAXORDINAL then Some (ord2ymd ordinal) else None)"

text \<open>\<open>a - b\<close> on two datetimes, in microseconds.\<close>

definition datetime_sub :: "datetime \<Rightarrow> datetime \<Rightarrow> timedelta" where
  "datetime_sub a b =
     ((toordinal a - toordinal b) * 86400
        + ((second a + minute a * 60 + hour a * 3600) - (second b + minute b * 60 + hour b * 3600)))
       * 1000000
      + (microsecond a - microsecond b)"

text \<open>\<open>timedelta.total_seconds()\<close> is the number of microseconds divided by \<open>10**6\<close>. The
  program compares it with the integer 86400 only. Python computes a correctly rounded
  double here; between two values of a datetime the quotient is below \<open>86400\<close> by at least
  \<open>10**-6\<close> or not below it at all, and the doubles next to \<open>86400\<close> are \<open>2**-36\<close> apart, so
  the rounding never changes the outcome of the comparison and the exact quotient decides
  it.\<close>

definition total_seconds :: "timedelta \<Rightarrow> rat" where
  "total_seconds td = of_int td / 1000000"

text \<open>\<open>strftime('%Y%m%d%H%M')\<close>.\<close>

definition strftime_YmdHM :: "datetime \<Rightarrow> string" where
  "strftime_YmdHM t = pad4 (year t) @ pad2 (month t) @ pad2 (day t) @ pad2 (hour t) @ pad2 (minute t)"

text \<open>\<open>strftime('%Y%m%d_%H%M%S_')\<close>, the prefix of a stored claim document.\<close>

definition strftime_Ymd_HMS :: "datetime \<Rightarrow> string" where
  "strftime_Ymd_HMS t =
     pad4 (year t) @ pad2 (month t) @ pad2 (day t) @ ''_'' @
     pad2 (hour t) @ pad2 (minute t) @ pad2 (second t) @ ''_''"

section \<open>Database models\<close>

text \<open>
  One record per model class; the field \<open>x\<close> of the class \<open>T\<close> is \<open>t_x\<close>. A \<open>Float\<close>
  column holds a \<open>real\<close>: the program only copies and stores these values. A table is the
  list of its rows in insertion order.
\<close>

record user =
  user_id :: nat
  user_digital_token :: string
  user_username :: string
  user_password_hash :: string
  user_full_name :: string
  user_email :: string
  user_phone :: string
  user_date_of_birth :: date
  user_age :: int
  user_gender :: string
  user_address :: string
  user_pan_number :: string
  user_face_data :: "string option"
  user_fingerprint_data :: "string option"
  user_retina_data :: "string option"
  user_profile_picture :: "string option"
  user_account_status :: string
  user_created_at :: datetime
  user_last_login :: "datetime option"

record scheme =
  scheme_id :: nat
  scheme_name :: string
  scheme_category :: string
  scheme_description :: "string option"
  scheme_premium_amount :: real
  scheme_coverage_amount :: real
  scheme_min_age :: int
  scheme_max_age :: int
  scheme_features :: "string option"
  scheme_is_active :: bool

record policy =
  policy_id :: nat
  policy_policy_number :: string
  policy_user_id :: nat
  policy_scheme_id :: nat
  policy_start_date :: "date option"
  policy_end_date :: "date option"
  policy_premium_amount :: real
  policy_coverage_amount :: real
  policy_status :: string
  policy_created_at :: datetime

record nominee =
  nominee_id :: nat
  nominee_user_id :: nat
  nominee_policy_id :: "nat option"
  nominee_name :: string
  nominee_relationship :: string

text \<open>\<open>Claim.policy_id\<close> receives \<open>request.form['policy_id']\<close> as it was submitted, a
  string; \<open>document_paths\<close> is the list that \<open>json.dumps\<close> serialises.\<close>

record claim =
  claim_id :: nat
  claim_claim_number :: string
  claim_user_id :: nat
  claim_policy_id :: string
  claim_claim_amount :: real
  claim_document_paths :: "string list"
  claim_status :: string
  claim_submitted_at :: datetime

record report =
  report_id :: nat
  report_user_id :: nat
  report_report_type :: string
  report_description :: string
  report_status :: string
  report_created_at :: datetime

record db =
  users :: "user list"
  schemes :: "scheme list"
  policies :: "policy list"
  nominees :: "nominee list"
  claims :: "claim list"
  reports :: "report list"

text \<open>\<open>Model.query.get(i)\<close>: the row with primary key \<open>i\<close>, if any.\<close>

definition query_get :: "('r \<Rightarrow> nat) \<Rightarrow> 'r list \<Rightarrow> nat \<Rightarrow> 'r option" where
  "query_get pk rows i = find (\<lambda>r. pk r = i) rows"

text \<open>
  \<open>Model.query.filter_by(column=v).first()\<close>: the first row whose column holds \<open>v\<close>, if
  any. The value is a parameter of the SQL statement, and \<open>sqlite3\<close> encodes a \<open>str\<close>
  parameter as UTF-8 before the statement runs: a value that does not encode raises
  \<open>UnicodeEncodeError\<close>.
\<close>

definition filter_by_first :: "('r \<Rightarrow> string) \<Rightarrow> string \<Rightarrow> 'r list \<Rightarrow> exn + 'r option" where
  "filter_by_first column v rows =
     (case encode_utf8 v of
        Inl x \<Rightarrow> Inl x
      | Inr bytes \<Rightarrow> Inr (find (\<lambda>r. column r = v) rows))"

text \<open>The primary key that SQLite gives a new row of an \<open>INTEGER PRIMARY KEY\<close> table: one
  more than the largest key in use.\<close>

definition next_id :: "nat list \<Rightarrow> nat" where
  "next_id ids = Suc (fold max ids 0)"

section \<open>The environment of a request\<close>

text \<open>
  What a request reads from outside the program. The clock is read anew at every call, and
  two readings taken within one request can differ.

  \<^item> \<open>date_today e k\<close> and \<open>datetime_now e k\<close> are the values of the call number \<open>k\<close>,
    counted from 0, of \<open>date.today()\<close> and of \<open>datetime.now()\<close> in the request.
  \<^item> \<open>datetime_utcnow e\<close> is the value of the call of \<open>datetime.utcnow()\<close> that the body of
    the view makes: the default of a \<open>created_at\<close> or \<open>submitted_at\<close> column when the row
    is inserted, \<open>last_login\<close> in \<open>login\<close>, the property \<open>is_withdrawable\<close> in
    \<open>withdraw_policy\<close>. None of the views below makes more than one such call.
  \<^item> \<open>context_utcnow e\<close> is the value of the call of \<open>datetime.utcnow()\<close> by the context
    processor \<open>inject_user_and_now\<close>, which runs when the view renders its template, after
    the body of the view: it is the template variable \<open>now\<close>.
  \<^item> \<open>uuid_uuid4 e\<close> is \<open>str(uuid.uuid4())\<close>, which no view calls twice, and
    \<open>save_fails e path\<close> tells whether \<open>file.save(path)\<close> raises.
\<close>

record env =
  datetime_utcnow :: datetime
  context_utcnow :: datetime
  datetime_now :: "nat \<Rightarrow> datetime"
  date_today :: "nat \<Rightarrow> date"
  uuid_uuid4 :: string
  save_fails :: "string \<Rightarrow> bool"

text \<open>
  Functions of the Python library and of werkzeug that the program calls: the methods
  \<open>upper\<close>, \<open>lower\<close> and \<open>strip\<close> of \<open>str\<close>, which follow the Unicode character database,
  the SHA-256 hex digest of a byte string, \<open>datetime.strptime(s, '%Y-%m-%d').date()\<close>
  (\<open>None\<close> is its \<open>ValueError\<close>), \<open>float(s)\<close> (\<open>None\<close> is its \<open>ValueError\<close>),
  \<open>secure_filename\<close> and \<open>os.path.join\<close>. The views take them as a parameter, and what is
  proved of a view holds whatever these functions return.
\<close>

record library =
  str_upper :: "string \<Rightarrow> string"
  str_lower :: "string \<Rightarrow> string"
  str_strip :: "string \<Rightarrow> string"
  sha256_hexdigest :: "string \<Rightarrow> string"
  strptime_date :: "string \<Rightarrow> date option"
  float_of_string :: "string \<Rightarrow> real option"
  secure_filename :: "string \<Rightarrow> string"
  os_path_join :: "string \<Rightarrow> string \<Rightarrow> string"

section \<open>Helper functions\<close>

text \<open>\<open>str(uuid.uuid4())\<close> consists of hexadecimal digits and hyphens, one byte each, so
  the slice \<open>[:8]\<close> is the first eight bytes.\<close>

definition generate_token :: "library \<Rightarrow> env \<Rightarrow> string" where
  "generate_token L e = str_upper L (take 8 (uuid_uuid4 e))"

text \<open>The two number generators read \<open>datetime.now()\<close>; \<open>k\<close> is the number of calls of
  \<open>datetime.now()\<close> that the request has made before.\<close>

definition generate_policy_number :: "library \<Rightarrow> env \<Rightarrow> nat \<Rightarrow> string" where
  "generate_policy_number L e k =
     ''POL'' @ strftime_YmdHM (datetime_now e k) @ str_upper L (take 6 (uuid_uuid4 e))"

definition generate_claim_number :: "library \<Rightarrow> env \<Rightarrow> nat \<Rightarrow> string" where
  "generate_claim_number L e k =
     ''CLM'' @ strftime_YmdHM (datetime_now e k) @ str_upper L (take 6 (uuid_uuid4 e))"

text \<open>Both password functions raise what \<open>encode\<close> raises.\<close>

definition hash_password :: "library \<Rightarrow> string \<Rightarrow> exn + string" where
  "hash_password L password =
     (case encode_utf8 password of
        Inl x \<Rightarrow> Inl x
      | Inr bytes \<Rightarrow> Inr (sha256_hexdigest L bytes))"

definition verify_password :: "library \<Rightarrow> string \<Rightarrow> string \<Rightarrow> exn + bool" where
  "verify_password L password password_hash =
     (case encode_utf8 password of
        Inl x \<Rightarrow> Inl x
      | Inr bytes \<Rightarrow> Inr (sha256_hexdigest L bytes = password_hash))"

text \<open>\<open>calculate_age\<close> is called by \<open>register\<close>, where its \<open>date.today()\<close> is the first
  call of the request.\<close>

definition calculate_age :: "env \<Rightarrow> date \<Rightarrow> int" where
  "calculate_age e dob =
     (let today = date_today e 0
      in year today - year dob
         - (if month today < month dob \<or> (month today = month dob \<and> day today < day dob)
            then 1 else 0))"

text \<open>\<open>re.match(r'^[A-Z]{5}[0-9]{4}[A-Z]{1}$', pan.upper())\<close>; the \<open>$\<close> also matches before
  a line feed that ends the string.\<close>

definition validate_pan :: "library \<Rightarrow> string \<Rightarrow> bool" where
  "validate_pan L pan =
     (let s = str_upper L pan;
          t = (if s \<noteq> [] \<and> last s = CHR 0x0A then butlast s else s)
      in length t = 10 \<and> list_all isupper_ascii (take 5 t) \<and>
         list_all isdigit_ascii (take 4 (drop 5 t)) \<and> list_all isupper_ascii (drop 9 t))"

text \<open>The property \<open>Policy.is_withdrawable\<close>.\<close>

definition is_withdrawable :: "env \<Rightarrow> policy \<Rightarrow> bool" where
  "is_withdrawable e p =
     (policy_status p = ''applied'' \<and>
      total_seconds (datetime_sub (datetime_utcnow e) (policy_created_at p)) < 86400)"

section \<open>Requests and responses\<close>

datatype http_method = GET | POST

text \<open>The Flask session: the key \<open>'user_id'\<close>, if present, and the flag \<open>permanent\<close>.\<close>

record session =
  session_user_id :: "nat option"
  session_permanent :: bool

text \<open>\<open>request.form\<close> and a JSON object with string values map a field name to its value.
  (The values of a form are decoded from the bytes of the request, with a replacement for
  bytes that are not UTF-8: they hold no surrogate. A string of a JSON body can hold one,
  written as an escape.)\<close>

type_synonym form = "string \<rightharpoonup> string"

text \<open>A decoded JSON value, and what Python's \<open>not v\<close> tests. The pairs of an object have
  distinct keys.\<close>

datatype json =
    JNull
  | JBool bool
  | JNumber real
  | JString string
  | JArray "json list"
  | JObject "(string \<times> json) list"

fun truthy :: "json \<Rightarrow> bool" where
  "truthy JNull = False"
| "truthy (JBool b) = b"
| "truthy (JNumber x) = (x \<noteq> 0)"
| "truthy (JString s) = (s \<noteq> [])"
| "truthy (JArray xs) = (xs \<noteq> [])"
| "truthy (JObject kvs) = (kvs \<noteq> [])"

text \<open>\<open>d.get(key, default)\<close> on a decoded object.\<close>

definition dict_get :: "(string \<times> json) list \<Rightarrow> string \<Rightarrow> json \<Rightarrow> json" where
  "dict_get kvs k dflt = (case map_of kvs k of None \<Rightarrow> dflt | Some v \<Rightarrow> v)"

text \<open>The body of a login request: JSON (\<open>None\<close> when \<open>request.get_json()\<close> raises), or a
  form whose two fields may be absent.\<close>

datatype login_request =
    JsonRequest "json option"
  | FormRequest "string option" "string option"

text \<open>An uploaded file of \<open>request.files\<close>.\<close>

record upload =
  upload_filename :: string

text \<open>The body of a \<open>jsonify\<close> response: \<open>success\<close> true with the redirect target or with the
  digital token and a message, or \<open>success\<close> false with a message; \<open>RegistrationFailed e\<close> is
  the message \<open>'Registration failed: ' + str(e)\<close>.\<close>

datatype json_body =
    LoginOk string
  | RegisterOk string string
  | Failure string
  | RegistrationFailed exn

text \<open>The pages that the views render, with the values their templates show.\<close>

datatype page =
    LoginForm
  | RegisterForm
  | TokenVerificationFailed
  | ApplyPolicyForm scheme
  | ApplicationSuccessful policy nominee
  | MakeClaimForm "policy list"
  | ClaimSubmitted claim nat
  | ReportForm
  | ReportSubmitted string
  | FeedbackForm
  | FeedbackSubmitted string

datatype response =
    Redirect string
  | Jsonify json_body nat
  | Render page
  | Raised exn

section \<open>The views\<close>

subsection \<open>\<open>login\<close>\<close>

definition login_data :: "login_request \<Rightarrow> json option" where
  "login_data req =
     (case req of
        JsonRequest j \<Rightarrow> j
      | FormRequest u p \<Rightarrow>
          Some (JObject
            [(''username'', case u of None \<Rightarrow> JNull | Some x \<Rightarrow> JString x),
             (''password'', case p of None \<Rightarrow> JNull | Some x \<Rightarrow> JString x)]))"

definition login ::
  "library \<Rightarrow> env \<Rightarrow> http_method \<Rightarrow> login_request \<Rightarrow> session \<Rightarrow> db
     \<Rightarrow> response \<times> session \<times> db" where
  "login L e meth req sess s =
     (if meth = POST then
        (case login_data req of
           None \<Rightarrow> (Jsonify (Failure ''Login failed. Please try again.'') 500, sess, s)
         | Some data \<Rightarrow>
             if \<not> truthy data then (Jsonify (Failure ''No data received'') 400, sess, s)
             else
               (case data of
                  JObject kvs \<Rightarrow>
                    (case dict_get kvs ''username'' (JString []) of
                       JString u \<Rightarrow>
                         (let username = str_strip L u;
                              password = dict_get kvs ''password'' (JString [])
                          in if username = [] \<or> \<not> truthy password
                             then (Jsonify (Failure ''Username and password are required'') 400,
                                   sess, s)
                             else
                               (case filter_by_first user_username username (users s) of
                                  Inl x \<Rightarrow>
                                    (Jsonify (Failure ''Login failed. Please try again.'') 500,
                                     sess, s)
                                | Inr None \<Rightarrow>
                                    (Jsonify (Failure ''Invalid username or password'') 401, sess, s)
                                | Inr (Some user) \<Rightarrow>
                                    (case password of
                                       JString p \<Rightarrow>
                                         (case verify_password L p (user_password_hash user) of
                                            Inl x \<Rightarrow>
                                              (Jsonify (Failure ''Login failed. Please try again.'')
                                                 500, sess, s)
                                          | Inr verified \<Rightarrow>
                                              if verified
                                              then
                                                (Jsonify (LoginOk ''/dashboard'') 200,
                                                 sess\<lparr>session_user_id := Some (user_id user),
                                                      session_permanent := True\<rparr>,
                                                 s\<lparr>users :=
                                                     map (\<lambda>x. if user_id x = user_id user
                                                               then x\<lparr>user_last_login :=
                                                                        Some (datetime_utcnow e)\<rparr>
                                                               else x)
                                                       (users s)\<rparr>)
                                              else
                                                (Jsonify (Failure ''Invalid username or password'')
                                                   401, sess, s))
                                     | _ \<Rightarrow>
                                         (Jsonify (Failure ''Login failed. Please try again.'') 500,
                                          sess, s))))
                     | _ \<Rightarrow>
                         (Jsonify (Failure ''Login failed. Please try again.'') 500, sess, s))
                | _ \<Rightarrow> (Jsonify (Failure ''Login failed. Please try again.'') 500, sess, s)))
      else (Render LoginForm, sess, s))"

text \<open>A login request that carries the username \<open>u\<close> and the password \<open>p\<close>, both as
  strings: the two fields of a form, or the two entries of a JSON object.\<close>

definition carries :: "login_request \<Rightarrow> string \<Rightarrow> string \<Rightarrow> bool" where
  "carries req u p =
     (case req of
        FormRequest fu fp \<Rightarrow> fu = Some u \<and> fp = Some p
      | JsonRequest j \<Rightarrow>
          (case j of
             Some (JObject kvs) \<Rightarrow>
               map_of kvs ''username'' = Some (JString u) \<and>
               map_of kvs ''password'' = Some (JString p)
           | _ \<Rightarrow> False))"

subsection \<open>\<open>register\<close>\<close>

text \<open>
  The JSON body of a registration is an object whose values are strings. (Each of the nine
  required values is passed to a method of \<open>str\<close>, or to \<open>strptime\<close>, before the new row
  is added, so a value of another type raises inside the \<open>try\<close> and no user is created.)
\<close>

definition required_fields :: "string list" where
  "required_fields =
     [''username'', ''password'', ''full_name'', ''email'', ''phone'',
      ''date_of_birth'', ''gender'', ''address'', ''pan_number'']"

text \<open>\<open>not data.get(field)\<close>: the field is absent or empty.\<close>

definition field_missing :: "form \<Rightarrow> string \<Rightarrow> bool" where
  "field_missing data f = (case data f of None \<Rightarrow> True | Some v \<Rightarrow> v = [])"

text \<open>\<open>data[f]\<close> for a field that the check of the required fields has found present.\<close>

definition getitem :: "form \<Rightarrow> string \<Rightarrow> string" where
  "getitem data f = (case data f of None \<Rightarrow> [] | Some v \<Rightarrow> v)"

text \<open>The row that \<open>register\<close> builds from the data and the hash of the password; the
  columns it does not set take their defaults at the insert.\<close>

definition new_user :: "library \<Rightarrow> env \<Rightarrow> form \<Rightarrow> string \<Rightarrow> date \<Rightarrow> int \<Rightarrow> db \<Rightarrow> user" where
  "new_user L e data password_hash birth_date calculated_age s =
     \<lparr>user_id = next_id (map user_id (users s)),
      user_digital_token = generate_token L e,
      user_username = str_strip L (getitem data ''username''),
      user_password_hash = password_hash,
      user_full_name = str_strip L (getitem data ''full_name''),
      user_email = str_lower L (str_strip L (getitem data ''email'')),
      user_phone = str_strip L (getitem data ''phone''),
      user_date_of_birth = birth_date,
      user_age = calculated_age,
      user_gender = str_lower L (getitem data ''gender''),
      user_address = str_strip L (getitem data ''address''),
      user_pan_number = str_strip L (str_upper L (getitem data ''pan_number'')),
      user_face_data = None,
      user_fingerprint_data = None,
      user_retina_data = None,
      user_profile_picture = None,
      user_account_status = ''active'',
      user_created_at = datetime_utcnow e,
      user_last_login = None\<rparr>"

text \<open>The \<open>str\<close> values of the row, which are parameters of the \<open>INSERT\<close> statement: when
  one of them does not encode, the insert raises \<open>UnicodeEncodeError\<close>.\<close>

definition user_strings :: "user \<Rightarrow> string list" where
  "user_strings u =
     [user_digital_token u, user_username u, user_password_hash u, user_full_name u,
      user_email u, user_phone u, user_gender u, user_address u, user_pan_number u,
      user_account_status u]"

text \<open>The \<open>unique=True\<close> columns of \<open>User\<close>: the insert of a row that repeats one of them
  raises \<open>IntegrityError\<close>.\<close>

definition user_unique_violation :: "user \<Rightarrow> db \<Rightarrow> bool" where
  "user_unique_violation u s =
     (user_digital_token u \<in> set (map user_digital_token (users s)) \<or>
      user_username u \<in> set (map user_username (users s)) \<or>
      user_email u \<in> set (map user_email (users s)) \<or>
      user_pan_number u \<in> set (map user_pan_number (users s)))"

text \<open>The part of \<open>register\<close> after the three lookups: the format of the PAN, the date of
  birth and the age, then the new row and its insert.\<close>

definition register_user :: "library \<Rightarrow> env \<Rightarrow> form \<Rightarrow> db \<Rightarrow> response \<times> db" where
  "register_user L e data s =
     (if \<not> validate_pan L (getitem data ''pan_number'')
      then (Jsonify (Failure
              ''Invalid PAN number format. Please enter a valid PAN number.'') 400, s)
      else
        (case strptime_date L (getitem data ''date_of_birth'') of
           None \<Rightarrow>
             (Jsonify (Failure
                ''Invalid date format. Please enter a valid date of birth.'') 400, s)
         | Some birth_date \<Rightarrow>
             (let calculated_age = calculate_age e birth_date
              in if calculated_age < 18
                 then (Jsonify (Failure
                         ''You must be at least 18 years old to register.'') 400, s)
                 else if calculated_age > 100
                 then (Jsonify (Failure ''Please enter a valid date of birth.'') 400, s)
                 else
                   (case hash_password L (getitem data ''password'') of
                      Inl x \<Rightarrow> (Jsonify (RegistrationFailed x) 500, s)
                    | Inr password_hash \<Rightarrow>
                        (let user = new_user L e data password_hash birth_date calculated_age s
                         in if list_ex has_surrogate (user_strings user)
                            then (Jsonify (RegistrationFailed UnicodeEncodeError) 500, s)
                            else if user_unique_violation user s
                            then (Jsonify (RegistrationFailed IntegrityError) 500, s)
                            else
                              (Jsonify
                                 (RegisterOk (user_digital_token user)
                                    ''Registration successful! Please save your digital token securely.'')
                                 200,
                               s\<lparr>users := users s @
                                    [user\<lparr>user_face_data := Some ''verified'',
                                          user_retina_data := Some ''verified''\<rparr>]\<rparr>))))))"

definition register :: "library \<Rightarrow> env \<Rightarrow> http_method \<Rightarrow> form \<Rightarrow> db \<Rightarrow> response \<times> db" where
  "register L e meth data s =
     (if meth = POST then
        (case find (field_missing data) required_fields of
           Some f \<Rightarrow> (Jsonify (Failure (''Missing required field: '' @ f)) 400, s)
         | None \<Rightarrow>
             (case filter_by_first user_username (getitem data ''username'') (users s) of
                Inl x \<Rightarrow> (Jsonify (RegistrationFailed x) 500, s)
              | Inr (Some existing_user) \<Rightarrow>
                  (Jsonify (Failure
                     ''Username already exists. Please choose a different username.'') 400, s)
              | Inr None \<Rightarrow>
                  (case filter_by_first user_email (getitem data ''email'') (users s) of
                     Inl x \<Rightarrow> (Jsonify (RegistrationFailed x) 500, s)
                   | Inr (Some existing_email) \<Rightarrow>
                       (Jsonify (Failure
                          ''Email already registered. Please use a different email.'') 400, s)
                   | Inr None \<Rightarrow>
                       (case filter_by_first user_pan_number
                               (str_upper L (getitem data ''pan_number'')) (users s) of
                          Inl x \<Rightarrow> (Jsonify (RegistrationFailed x) 500, s)
                        | Inr (Some existing_pan) \<Rightarrow>
                            (Jsonify (Failure
                               ''PAN number already registered. Please check your PAN number.'')
                               400, s)
                        | Inr None \<Rightarrow> register_user L e data s))))
      else (Render RegisterForm, s))"

subsection \<open>\<open>apply_policy\<close>\<close>

text \<open>\<open>request.form.get(key, '')\<close>.\<close>

definition form_get :: "form \<Rightarrow> string \<Rightarrow> string" where
  "form_get f k = (case f k of None \<Rightarrow> [] | Some v \<Rightarrow> v)"

text \<open>
  The policy that \<open>apply_policy\<close> builds, with the defaults of \<open>status\<close> and \<open>created_at\<close>
  and the key that the flush assigns. The arguments of \<open>Policy(...)\<close> are evaluated in the
  order in which they are written: the policy number, which makes the first call of
  \<open>datetime.now()\<close>, then \<open>start_date=date.today()\<close>, the first call of \<open>date.today()\<close>,
  then \<open>end_date=date.today() + timedelta(days=365 * 10)\<close>, which calls \<open>date.today()\<close> a
  second time.
\<close>

definition new_policy :: "library \<Rightarrow> env \<Rightarrow> user \<Rightarrow> scheme \<Rightarrow> date \<Rightarrow> db \<Rightarrow> policy" where
  "new_policy L e user scheme end_date s =
     \<lparr>policy_id = next_id (map policy_id (policies s)),
      policy_policy_number = generate_policy_number L e 0,
      policy_user_id = user_id user,
      policy_scheme_id = scheme_id scheme,
      policy_start_date = Some (date_today e 0),
      policy_end_date = Some end_date,
      policy_premium_amount = scheme_premium_amount scheme,
      policy_coverage_amount = scheme_coverage_amount scheme,
      policy_status = ''applied'',
      policy_created_at = datetime_utcnow e\<rparr>"

definition apply_policy ::
  "library \<Rightarrow> env \<Rightarrow> session \<Rightarrow> http_method \<Rightarrow> form \<Rightarrow> nat \<Rightarrow> db \<Rightarrow> response \<times> db" where
  "apply_policy L e sess meth frm sid s =
     (case session_user_id sess of
        None \<Rightarrow> (Redirect ''/login'', s)
      | Some uid \<Rightarrow>
          (case query_get scheme_id (schemes s) sid of
             None \<Rightarrow> (Raised NotFound, s)
           | Some scheme \<Rightarrow>
               if meth = POST then
                 (case query_get user_id (users s) uid of
                    None \<Rightarrow> (Raised AttributeError, s)
                  | Some user \<Rightarrow>
                      (let token_entered = str_upper L (form_get frm ''digital_token'')
                       in if user_digital_token user \<noteq> token_entered
                          then (Render TokenVerificationFailed, s)
                          else
                            (case date_add_days (date_today e 1) (365 * 10) of
                               None \<Rightarrow> (Raised OverflowError, s)
                             | Some end_date \<Rightarrow>
                                 (let p = new_policy L e user scheme end_date s
                                  in if policy_policy_number p
                                          \<in> set (map policy_policy_number (policies s))
                                     then (Raised IntegrityError, s)
                                     else
                                       (case frm ''nominee_name'' of
                                          None \<Rightarrow> (Raised (BadRequestKeyError ''nominee_name''), s)
                                        | Some nname \<Rightarrow>
                                            (case frm ''nominee_relationship'' of
                                               None \<Rightarrow>
                                                 (Raised (BadRequestKeyError
                                                    ''nominee_relationship''), s)
                                             | Some nrel \<Rightarrow>
                                                 (let n = \<lparr>nominee_id =
                                                               next_id (map nominee_id (nominees s)),
                                                            nominee_user_id = user_id user,
                                                            nominee_policy_id = Some (policy_id p),
                                                            nominee_name = nname,
                                                            nominee_relationship = nrel\<rparr>
                                                  in (Render (ApplicationSuccessful p n),
                                                      s\<lparr>policies := policies s @ [p],
                                                        nominees := nominees s @ [n]\<rparr>))))))))
               else (Render (ApplyPolicyForm scheme), s)))"

subsection \<open>\<open>withdraw_policy\<close>\<close>

text \<open>The route accepts the method POST only.\<close>

definition withdraw_policy :: "env \<Rightarrow> session \<Rightarrow> nat \<Rightarrow> db \<Rightarrow> response \<times> db" where
  "withdraw_policy e sess pid s =
     (case session_user_id sess of
        None \<Rightarrow> (Redirect ''/login'', s)
      | Some uid \<Rightarrow>
          (case query_get policy_id (policies s) pid of
             None \<Rightarrow> (Raised NotFound, s)
           | Some p \<Rightarrow>
               (Redirect ''/my-policies'',
                if policy_user_id p = uid \<and> is_withdrawable e p
                then s\<lparr>policies :=
                         map (\<lambda>x. if policy_id x = pid then x\<lparr>policy_status := ''withdrawn''\<rparr>
                                  else x)
                           (policies s)\<rparr>
                else s)))"

subsection \<open>\<open>make_claim\<close>\<close>

text \<open>The loop over the uploaded files: the paths of the files saved, or \<open>None\<close> when a
  \<open>file.save\<close> raises. Every file that has a name makes one call of \<open>datetime.now()\<close>;
  \<open>k\<close> is the number of calls made before.\<close>

fun save_documents :: "library \<Rightarrow> env \<Rightarrow> nat \<Rightarrow> upload list \<Rightarrow> string list option" where
  "save_documents L e k [] = Some []"
| "save_documents L e k (f # fs) =
     (if upload_filename f \<noteq> [] then
        (let path = os_path_join L ''claim_documents''
                      (strftime_Ymd_HMS (datetime_now e k) @ secure_filename L (upload_filename f))
         in if save_fails e path then None
            else (case save_documents L e (Suc k) fs of
                    None \<Rightarrow> None
                  | Some paths \<Rightarrow> Some (path # paths)))
      else save_documents L e k fs)"

text \<open>The claim number makes the next call of \<open>datetime.now()\<close>, after one call for each
  path saved.\<close>

definition make_claim ::
  "library \<Rightarrow> env \<Rightarrow> session \<Rightarrow> http_method \<Rightarrow> form \<Rightarrow> upload list \<Rightarrow> db
     \<Rightarrow> response \<times> db" where
  "make_claim L e sess meth frm files s =
     (case session_user_id sess of
        None \<Rightarrow> (Redirect ''/login'', s)
      | Some uid \<Rightarrow>
          (case query_get user_id (users s) uid of
             None \<Rightarrow> (Raised AttributeError, s)
           | Some user \<Rightarrow>
               (let active_policies =
                      filter (\<lambda>p. policy_user_id p = user_id user \<and> policy_status p = ''active'')
                        (policies s)
                in if meth = POST then
                     (let token_entered = str_upper L (form_get frm ''digital_token'')
                      in if user_digital_token user \<noteq> token_entered
                         then (Render TokenVerificationFailed, s)
                         else
                           (case save_documents L e 0 files of
                              None \<Rightarrow> (Raised OSError, s)
                            | Some doc_paths \<Rightarrow>
                                (case frm ''policy_id'' of
                                   None \<Rightarrow> (Raised (BadRequestKeyError ''policy_id''), s)
                                 | Some pid \<Rightarrow>
                                     (case frm ''claim_amount'' of
                                        None \<Rightarrow> (Raised (BadRequestKeyError ''claim_amount''), s)
                                      | Some amount \<Rightarrow>
                                          (case float_of_string L amount of
                                             None \<Rightarrow> (Raised ValueError, s)
                                           | Some a \<Rightarrow>
                                               (let c = \<lparr>claim_id =
                                                            next_id (map claim_id (claims s)),
                                                          claim_claim_number =
                                                            generate_claim_number L e
                                                              (length doc_paths),
                                                          claim_user_id = user_id user,
                                                          claim_policy_id = pid,
                                                          claim_claim_amount = a,
                                                          claim_document_paths = doc_paths,
                                                          claim_status = ''submitted'',
                                                          claim_submitted_at = datetime_utcnow e\<rparr>
                                                in if claim_claim_number c
                                                        \<in> set (map claim_claim_number (claims s))
                                                   then (Raised IntegrityError, s)
                                                   else
                                                     (Render (ClaimSubmitted c (length doc_paths)),
                                                      s\<lparr>claims := claims s @ [c]\<rparr>)))))))
                   else (Render (MakeClaimForm active_policies), s))))"

subsection \<open>\<open>report_transaction\<close> and \<open>complaints_feedback\<close>\<close>

text \<open>
  The report is inserted with the default of \<open>created_at\<close>, the call of
  \<open>datetime.utcnow()\<close> at the insert. The reference id on the page is made from the
  template variable \<open>now\<close>, the later call of \<open>datetime.utcnow()\<close> by the context processor.
\<close>

definition new_report :: "env \<Rightarrow> nat \<Rightarrow> string \<Rightarrow> string \<Rightarrow> db \<Rightarrow> report" where
  "new_report e uid rtype description s =
     \<lparr>report_id = next_id (map report_id (reports s)),
      report_user_id = uid,
      report_report_type = rtype,
      report_description = description,
      report_status = ''submitted'',
      report_created_at = datetime_utcnow e\<rparr>"

definition report_transaction ::
  "env \<Rightarrow> session \<Rightarrow> http_method \<Rightarrow> form \<Rightarrow> db \<Rightarrow> response \<times> db" where
  "report_transaction e sess meth frm s =
     (case session_user_id sess of
        None \<Rightarrow> (Redirect ''/login'', s)
      | Some uid \<Rightarrow>
          if meth = POST then
            (case frm ''description'' of
               None \<Rightarrow> (Raised (BadRequestKeyError ''description''), s)
             | Some d \<Rightarrow>
                 (Render (ReportSubmitted (''REP'' @ strftime_YmdHM (context_utcnow e))),
                  s\<lparr>reports := reports s @ [new_report e uid ''unauthorized_transaction'' d s]\<rparr>))
          else (Render ReportForm, s))"


section \<open>Example data\<close>

text \<open>
  A small database and environment on which the theorems below are instantiated. The
  theorems hold for every library; the examples fix simple stand-ins for its functions.

  On a \<open>str\<close> of ASCII characters, which is all that the examples apply them to, the
  methods \<open>upper\<close>, \<open>lower\<close> and \<open>strip\<close> are these: the letters a-z and A-Z change case and every
  other character is left as it is; \<open>strip\<close> removes from both ends the ASCII characters
  that Python counts as white space (tab, line feed, vertical tab, form feed, carriage
  return, the separators 0x1C-0x1F and the space).
\<close>

definition upper_char :: "char \<Rightarrow> char" where
  "upper_char c =
     (case map_of (zip ''abcdefghijklmnopqrstuvwxyz'' ''ABCDEFGHIJKLMNOPQRSTUVWXYZ'') c of
        None \<Rightarrow> c
      | Some d \<Rightarrow> d)"

definition lower_char :: "char \<Rightarrow> char" where
  "lower_char c =
     (case map_of (zip ''ABCDEFGHIJKLMNOPQRSTUVWXYZ'' ''abcdefghijklmnopqrstuvwxyz'') c of
        None \<Rightarrow> c
      | Some d \<Rightarrow> d)"

definition ascii_upper :: "string \<Rightarrow> string" where
  "ascii_upper s = map upper_char s"

definition ascii_lower :: "string \<Rightarrow> string" where
  "ascii_lower s = map lower_char s"

definition whitespace :: "char list" where
  "whitespace =
     [CHR 0x09, CHR 0x0A, CHR 0x0B, CHR 0x0C, CHR 0x0D,
      CHR 0x1C, CHR 0x1D, CHR 0x1E, CHR 0x1F, CHR '' '']"

definition isspace :: "char \<Rightarrow> bool" where
  "isspace c = (c \<in> set whitespace)"

definition ascii_strip :: "string \<Rightarrow> string" where
  "ascii_strip s = rev (dropWhile isspace (rev (dropWhile isspace s)))"

definition ex_t0 :: datetime where
  "ex_t0 = \<lparr>year = 2024, month = 3, day = 15,
            hour = 10, minute = 30, second = 0, microsecond = 0\<rparr>"

definition ex_in_window :: datetime where
  "ex_in_window = \<lparr>year = 2024, month = 3, day = 16,
                   hour = 10, minute = 29, second = 59, microsecond = 999999\<rparr>"

definition ex_expired :: datetime where
  "ex_expired = \<lparr>year = 2024, month = 3, day = 16,
                 hour = 10, minute = 30, second = 0, microsecond = 0\<rparr>"

text \<open>A request on 2024-03-15 at 10:30: the body of the view reads the clock at 10:30:00,
  the context processor four milliseconds later.\<close>

definition ex_t1 :: datetime where
  "ex_t1 = \<lparr>year = 2024, month = 3, day = 15,
            hour = 10, minute = 30, second = 0, microsecond = 4000\<rparr>"

definition ex_env :: env where
  "ex_env = \<lparr>datetime_utcnow = ex_t0, context_utcnow = ex_t1,
             datetime_now = (\<lambda>k. ex_t0),
             date_today = (\<lambda>k. \<lparr>year = 2024, month = 3, day = 15\<rparr>),
             uuid_uuid4 = ''9f8e7d6c-5b4a-4c3d-8e2f-1a0b9c8d7e6f'',
             save_fails = (\<lambda>path. False)\<rparr>"

definition ex_library :: library where
  "ex_library =
     \<lparr>str_upper = ascii_upper, str_lower = ascii_lower, str_strip = ascii_strip,
      sha256_hexdigest = (\<lambda>bytes. ''sha256:'' @ bytes),
      strptime_date = (\<lambda>s. if s = ''1994-03-15''
                           then Some \<lparr>year = 1994, month = 3, day = 15\<rparr> else None),
      float_of_string = (\<lambda>s. if s = ''5000'' then Some 5000 else None),
      secure_filename = (\<lambda>name. name),
      os_path_join = (\<lambda>a b. a @ ''/'' @ b)\<rparr>"

definition ex_alice :: user where
  "ex_alice =
     \<lparr>user_id = 1, user_digital_token = ''A1B2C3D4'', user_username = ''alice'',
      user_password_hash = sha256_hexdigest ex_library ''correct horse'',
      user_full_name = ''Alice Rao'', user_email = ''alice@example.com'',
      user_phone = ''9000000001'',
      user_date_of_birth = \<lparr>year = 1990, month = 1, day = 1\<rparr>, user_age = 34,
      user_gender = ''female'', user_address = ''1 Main Road'',
      user_pan_number = ''ABCDE1234F'', user_face_data = Some ''verified'',
      user_fingerprint_data = None, user_retina_data = Some ''verified'',
      user_profile_picture = None, user_account_status = ''active'',
      user_created_at = ex_t0, user_last_login = None\<rparr>"

definition ex_bob :: user where
  "ex_bob =
     \<lparr>user_id = 2, user_digital_token = ''0F1E2D3C'', user_username = ''bob'',
      user_password_hash = sha256_hexdigest ex_library ''battery staple'',
      user_full_name = ''Bob Iyer'', user_email = ''bob@example.com'',
      user_phone = ''9000000002'',
      user_date_of_birth = \<lparr>year = 1985, month = 6, day = 30\<rparr>, user_age = 38,
      user_gender = ''male'', user_address = ''2 Main Road'',
      user_pan_number = ''PQRST5678U'', user_face_data = Some ''verified'',
      user_fingerprint_data = None, user_retina_data = Some ''verified'',
      user_profile_picture = None, user_account_status = ''active'',
      user_created_at = ex_t0, user_last_login = None\<rparr>"

definition ex_scheme :: scheme where
  "ex_scheme =
     \<lparr>scheme_id = 1, scheme_name = ''Pure Life Term Insurance'', scheme_category = ''life'',
      scheme_description = None, scheme_premium_amount = 750,
      scheme_coverage_amount = 10000000, scheme_min_age = 18, scheme_max_age = 65,
      scheme_features = None, scheme_is_active = True\<rparr>"

definition ex_policy :: policy where
  "ex_policy =
     \<lparr>policy_id = 1, policy_policy_number = ''POL2024031510309F8E7D'',
      policy_user_id = 1, policy_scheme_id = 1,
      policy_start_date = Some \<lparr>year = 2024, month = 3, day = 15\<rparr>,
      policy_end_date = Some \<lparr>year = 2034, month = 3, day = 13\<rparr>,
      policy_premium_amount = 750, policy_coverage_amount = 10000000,
      policy_status = ''applied'', policy_created_at = ex_t0\<rparr>"

definition ex_db :: db where
  "ex_db = \<lparr>users = [ex_alice, ex_bob], schemes = [ex_scheme], policies = [],
            nominees = [], claims = [], reports = []\<rparr>"

definition ex_session :: "nat \<Rightarrow> session" where
  "ex_session uid = \<lparr>session_user_id = Some uid, session_permanent = True\<rparr>"

definition ex_anonymous :: session where
  "ex_anonymous = \<lparr>session_user_id = None, session_permanent = False\<rparr>"

definition ex_nominee :: nominee where
  "ex_nominee = \<lparr>nominee_id = 1, nominee_user_id = 1, nominee_policy_id = Some 1,
                 nominee_name = ''Jane Doe'', nominee_relationship = ''spouse''\<rparr>"

text \<open>The form of Alice's application, with her token typed in lower case.\<close>

definition ex_apply_form :: form where
  "ex_apply_form =
     [''digital_token'' \<mapsto> ''a1b2c3d4'', ''nominee_name'' \<mapsto> ''Jane Doe'',
      ''nominee_relationship'' \<mapsto> ''spouse'']"

text \<open>The database after Alice has applied for the scheme.\<close>

definition ex_db_applied :: db where
  "ex_db_applied = ex_db\<lparr>policies := [ex_policy], nominees := [ex_nominee]\<rparr>"

text \<open>A registration of Carol, born on 1994-03-15, and a claim form of Alice.\<close>

definition ex_register_data :: form where
  "ex_register_data =
     [''username'' \<mapsto> ''carol'', ''password'' \<mapsto> ''tr0ub4dor'',
      ''full_name'' \<mapsto> ''Carol Menon'', ''email'' \<mapsto> ''Carol@Example.com'',
      ''phone'' \<mapsto> ''9000000003'', ''date_of_birth'' \<mapsto> ''1994-03-15'',
      ''gender'' \<mapsto> ''Female'', ''address'' \<mapsto> ''3 Main Road'',
      ''pan_number'' \<mapsto> ''lmnop4321q'']"

definition ex_carol :: user where
  "ex_carol =
     \<lparr>user_id = 3, user_digital_token = ''9F8E7D6C'', user_username = ''carol'',
      user_password_hash = sha256_hexdigest ex_library ''tr0ub4dor'',
      user_full_name = ''Carol Menon'', user_email = ''carol@example.com'',
      user_phone = ''9000000003'',
      user_date_of_birth = \<lparr>year = 1994, month = 3, day = 15\<rparr>, user_age = 30,
      user_gender = ''female'', user_address = ''3 Main Road'',
      user_pan_number = ''LMNOP4321Q'', user_face_data = Some ''verified'',
      user_fingerprint_data = None, user_retina_data = Some ''verified'',
      user_profile_picture = None, user_account_status = ''active'',
      user_created_at = ex_t0, user_last_login = None\<rparr>"

text \<open>An environment whose random UUID starts with the characters of Alice's token.\<close>

definition ex_env_collision :: env where
  "ex_env_collision = ex_env\<lparr>uuid_uuid4 := ''a1b2c3d4-1111-4222-8333-444455556666''\<rparr>"

text \<open>A request handled while the local date changes from 2024-03-15 to 2024-03-16: the
  first call of \<open>date.today()\<close> is made before midnight and the second after it.\<close>

definition ex_before_midnight :: datetime where
  "ex_before_midnight = \<lparr>year = 2024, month = 3, day = 15,
                         hour = 23, minute = 59, second = 59, microsecond = 999990\<rparr>"

definition ex_after_midnight :: datetime where
  "ex_after_midnight = \<lparr>year = 2024, month = 3, day = 16,
                        hour = 0, minute = 0, second = 0, microsecond = 350\<rparr>"

definition ex_env_midnight :: env where
  "ex_env_midnight =
     ex_env\<lparr>datetime_now := (\<lambda>k. ex_before_midnight),
            date_today := (\<lambda>k. if k = 0 then \<lparr>year = 2024, month = 3, day = 15\<rparr>
                                else \<lparr>year = 2024, month = 3, day = 16\<rparr>),
            datetime_utcnow := ex_after_midnight, context_utcnow := ex_after_midnight\<rparr>"

text \<open>A request whose report is inserted in the last microsecond of 10:30 and whose page
  is rendered in the next minute.\<close>

definition ex_env_minute :: env where
  "ex_env_minute =
     ex_env\<lparr>datetime_utcnow := \<lparr>year = 2024, month = 3, day = 15,
                                 hour = 10, minute = 30, second = 59, microsecond = 999999\<rparr>,
            context_utcnow := \<lparr>year = 2024, month = 3, day = 15,
                                hour = 10, minute = 31, second = 0, microsecond = 2500\<rparr>\<rparr>"

text \<open>The \<open>str\<close> that holds the one code point U+D800, a lone surrogate; in a JSON body it
  is written as an escape, a backslash and \<open>ud800\<close>.\<close>

definition ex_lone_surrogate :: string where
  "ex_lone_surrogate = [CHR 0xED, CHR 0xA0, CHR 0x80]"

definition ex_claim_form :: form where
  "ex_claim_form =
     [''digital_token'' \<mapsto> ''a1b2c3d4'', ''policy_id'' \<mapsto> ''1'',
      ''claim_amount'' \<mapsto> ''5000'']"

definition ex_claim :: claim where
  "ex_claim =
     \<lparr>claim_id = 1, claim_claim_number = ''CLM2024031510309F8E7D'', claim_user_id = 1,
      claim_policy_id = ''1'', claim_claim_amount = 5000, claim_document_paths = [],
      claim_status = ''submitted'', claim_submitted_at = ex_t0\<rparr>"

section \<open>Verified properties\<close>

subsection \<open>Auxiliary facts about the withdrawal window\<close>

lemma total_seconds_less: "total_seconds td < 86400 \<longleftrightarrow> td < 86400 * 1000000"
proof -
  have "total_seconds td < 86400 \<longleftrightarrow> (of_int td :: rat) < 86400 * 1000000"
    by (simp add: total_seconds_def pos_divide_less_eq)
  also have "\<dots> \<longleftrightarrow> (of_int td :: rat) < of_int (86400 * 1000000)"
    by simp
  also have "\<dots> \<longleftrightarrow> td < 86400 * 1000000"
    by (simp only: of_int_less_iff)
  finally show ?thesis .
qed

lemmas date_simps =
  datetime_sub_def toordinal_def ymd2ord_def days_before_year_def days_before_month_def
  DAYS_BEFORE_MONTH_def is_leap_def

lemma ex_elapsed_in_window: "datetime_sub ex_in_window ex_t0 = 86399999999"
  by (simp add: date_simps ex_in_window_def ex_t0_def)

lemma ex_elapsed_expired: "datetime_sub ex_expired ex_t0 = 86400000000"
  by (simp add: date_simps ex_expired_def ex_t0_def)

lemma ex_query_get_policy: "query_get policy_id (policies ex_db_applied) 1 = Some ex_policy"
  by (simp add: query_get_def ex_db_applied_def ex_db_def ex_policy_def)

subsection \<open>C1: the property \<open>is_withdrawable\<close>\<close>

text \<open>
  Claim C1. For every policy, \<open>is_withdrawable\<close> is true if and only if the status of the
  policy is \<open>'applied'\<close> and the time elapsed between its creation timestamp and the clock
  at the moment of the query is strictly less than 86400 seconds (86400000000
  microseconds, the unit in which a difference of two datetimes is exact); in particular
  it is false whenever the elapsed time is 86400 seconds or more, whatever the status.
\<close>

theorem is_withdrawable_window:
  "(is_withdrawable e p \<longleftrightarrow>
      policy_status p = ''applied'' \<and>
      datetime_sub (datetime_utcnow e) (policy_created_at p) < 86400 * 1000000) \<and>
   (86400 * 1000000 \<le> datetime_sub (datetime_utcnow e) (policy_created_at p)
      \<longrightarrow> \<not> is_withdrawable e p)"
  by (simp add: is_withdrawable_def total_seconds_less)

text \<open>A policy created on 2024-03-15 at 10:30:00 is withdrawable one microsecond before
  the same time of the next day and not withdrawable at that time; a status other than
  \<open>'applied'\<close> is never withdrawable.\<close>

theorem is_withdrawable_window_witness:
  "is_withdrawable (ex_env\<lparr>datetime_utcnow := ex_in_window\<rparr>) ex_policy \<and>
   \<not> is_withdrawable (ex_env\<lparr>datetime_utcnow := ex_expired\<rparr>) ex_policy \<and>
   \<not> is_withdrawable (ex_env\<lparr>datetime_utcnow := ex_expired\<rparr>)
        (ex_policy\<lparr>policy_status := ''active''\<rparr>) \<and>
   \<not> is_withdrawable (ex_env\<lparr>datetime_utcnow := ex_in_window\<rparr>)
        (ex_policy\<lparr>policy_status := ''withdrawn''\<rparr>)"
  using is_withdrawable_window [of "ex_env\<lparr>datetime_utcnow := ex_in_window\<rparr>" ex_policy]
    is_withdrawable_window [of "ex_env\<lparr>datetime_utcnow := ex_expired\<rparr>" ex_policy]
    is_withdrawable_window [of "ex_env\<lparr>datetime_utcnow := ex_expired\<rparr>"
      "ex_policy\<lparr>policy_status := ''active''\<rparr>"]
    is_withdrawable_window [of "ex_env\<lparr>datetime_utcnow := ex_in_window\<rparr>"
      "ex_policy\<lparr>policy_status := ''withdrawn''\<rparr>"]
  by (simp add: ex_policy_def ex_elapsed_in_window ex_elapsed_expired)

subsection \<open>C2: a claim against a policy that is not eligible\<close>

text \<open>The response of a POST to \<open>make_claim\<close> and the claims it stores are the same for
  every content of the policies table.\<close>

lemma make_claim_ignores_policies:
  "fst (make_claim L e sess POST frm files (s\<lparr>policies := ps\<rparr>))
     = fst (make_claim L e sess POST frm files s) \<and>
   claims (snd (make_claim L e sess POST frm files (s\<lparr>policies := ps\<rparr>)))
     = claims (snd (make_claim L e sess POST frm files s))"
  by (simp add: make_claim_def Let_def split: option.split)

text \<open>
  Claim C2 states that a claim filed with a matching token against a policy that is not
  \<open>'active'\<close>, or that the requesting user does not own, fails with
  \<open>PolicyNotEligibleError\<close> and creates no Claim. The view \<open>make_claim\<close> does not do so. It
  computes the active policies of the user and shows only these in the form, but its POST
  branch never compares the submitted \<open>policy_id\<close> with them. On the database in which
  Alice's only policy has the status \<open>'applied'\<close>, the claim of Alice against this policy,
  and the claim of Bob against the same policy, which he does not own, are both stored and
  both answered with the page "Claim Submitted".
\<close>

theorem make_claim_not_eligible:
  "policies ex_db_applied = [ex_policy] \<and>
   policy_status ex_policy = ''applied'' \<and> policy_user_id ex_policy = 1 \<and>
   decimal (policy_id ex_policy) = ''1'' \<and>
   make_claim ex_library ex_env (ex_session 1) POST ex_claim_form [] ex_db_applied =
     (Render (ClaimSubmitted ex_claim 0), ex_db_applied\<lparr>claims := [ex_claim]\<rparr>) \<and>
   claim_policy_id ex_claim = ''1'' \<and>
   make_claim ex_library ex_env (ex_session 2) POST
     (ex_claim_form(''digital_token'' \<mapsto> ''0f1e2d3c'')) [] ex_db_applied =
     (Render (ClaimSubmitted (ex_claim\<lparr>claim_user_id := 2\<rparr>) 0),
      ex_db_applied\<lparr>claims := [ex_claim\<lparr>claim_user_id := 2\<rparr>]\<rparr>)"
  by (simp add: make_claim_def ex_session_def ex_db_applied_def ex_db_def query_get_def
      ex_alice_def ex_bob_def ex_claim_form_def form_get_def ascii_upper_def upper_char_def
      ex_library_def ex_claim_def generate_claim_number_def strftime_YmdHM_def pad4_def
      pad2_def digit_def ex_env_def ex_t0_def next_id_def Let_def ex_policy_def)

subsection \<open>Primary keys\<close>

lemma fold_max_ge: "(a::nat) \<le> fold max ids a"
  by (induction ids arbitrary: a) (auto intro: order_trans [OF max.cobounded2])

lemma fold_max_mem: "x \<in> set ids \<Longrightarrow> (x::nat) \<le> fold max ids a"
proof (induction ids arbitrary: a)
  case Nil
  then show ?case by simp
next
  case (Cons y ys)
  show ?case
  proof (cases "x = y")
    case True
    have "y \<le> max y a" by simp
    also have "\<dots> \<le> fold max ys (max y a)" by (rule fold_max_ge)
    finally show ?thesis using True by simp
  next
    case False
    with Cons.prems have "x \<in> set ys" by simp
    then show ?thesis using Cons.IH by simp
  qed
qed

lemma next_id_fresh: "next_id ids \<notin> set ids"
proof
  assume "next_id ids \<in> set ids"
  then have "next_id ids \<le> fold max ids 0" by (rule fold_max_mem)
  then show False by (simp add: next_id_def)
qed

subsection \<open>The calendar\<close>

text \<open>The date of an ordinal has that ordinal, so that \<open>date + timedelta(days=n)\<close> is the
  date \<open>n\<close> days later.\<close>

lemma dby_regular:
  fixes a b c d :: int
  assumes "0 \<le> b" "b \<le> 3" "0 \<le> c" "c \<le> 24" "0 \<le> d" "d \<le> 3"
  shows "days_before_year (400 * a + 100 * b + 4 * c + d + 1)
           = 146097 * a + 36524 * b + 1461 * c + 365 * d"
proof -
  let ?y1 = "400 * a + 100 * b + 4 * c + d"
  have 1: "?y1 div 4 = 100 * a + 25 * b + c"
    by (rule int_div_pos_eq [where r = d]) (use assms in simp_all)
  have 2: "?y1 div 100 = 4 * a + b"
    by (rule int_div_pos_eq [where r = "4 * c + d"]) (use assms in simp_all)
  have 3: "?y1 div 400 = a"
    by (rule int_div_pos_eq [where r = "100 * b + 4 * c + d"]) (use assms in simp_all)
  show ?thesis
    by (simp add: days_before_year_def 1 2 3)
qed

lemma leap_regular:
  fixes a b c d :: int
  assumes "0 \<le> b" "b \<le> 3" "0 \<le> c" "c \<le> 24" "0 \<le> d" "d \<le> 3"
  shows "is_leap (400 * a + 100 * b + 4 * c + d + 1) \<longleftrightarrow> (d = 3 \<and> (c \<noteq> 24 \<or> b = 3))"
proof -
  let ?y = "400 * a + 100 * b + 4 * c + d + 1"
  have m4: "?y mod 4 = 0 \<longleftrightarrow> d = 3"
  proof (cases "d = 3")
    case True
    have "?y mod 4 = 0"
      by (rule int_mod_pos_eq [where q = "100 * a + 25 * b + c + 1"]) (use True in simp_all)
    with True show ?thesis by simp
  next
    case False
    have "?y mod 4 = d + 1"
      by (rule int_mod_pos_eq [where q = "100 * a + 25 * b + c"]) (use False assms in simp_all)
    with False assms show ?thesis by simp
  qed
  have m100: "?y mod 100 = 0 \<longleftrightarrow> (c = 24 \<and> d = 3)"
  proof (cases "c = 24 \<and> d = 3")
    case True
    have "?y mod 100 = 0"
      by (rule int_mod_pos_eq [where q = "4 * a + b + 1"]) (use True in simp_all)
    with True show ?thesis by simp
  next
    case False
    have "?y mod 100 = 4 * c + d + 1"
      by (rule int_mod_pos_eq [where q = "4 * a + b"]) (use False assms in auto)
    with False assms show ?thesis by auto
  qed
  have m400: "?y mod 400 = 0 \<longleftrightarrow> (b = 3 \<and> c = 24 \<and> d = 3)"
  proof (cases "b = 3 \<and> c = 24 \<and> d = 3")
    case True
    have "?y mod 400 = 0"
      by (rule int_mod_pos_eq [where q = "a + 1"]) (use True in simp_all)
    with True show ?thesis by simp
  next
    case False
    have "?y mod 400 = 100 * b + 4 * c + d + 1"
      by (rule int_mod_pos_eq [where q = a]) (use False assms in auto)
    with False assms show ?thesis by auto
  qed
  show ?thesis
    unfolding is_leap_def m4 m100 m400 by auto
qed


lemma month_part:
  fixes m r1 :: int
  assumes m: "1 \<le> m" "m \<le> 12" and r1: "0 \<le> r1" and L: "is_leap y = L"
  shows "(let preceding = DAYS_BEFORE_MONTH ! nat m + (if m > 2 \<and> L then 1 else 0)
          in if preceding > r1
             then days_before_month y (m - 1)
                  + (r1 - (preceding - (DAYS_IN_MONTH ! nat (m - 1)
                                  + (if m - 1 = 2 \<and> L then 1 else 0))) + 1)
             else days_before_month y m + (r1 - preceding + 1)) = r1 + 1"
proof -
  from m have "m = 1 \<or> m = 2 \<or> m = 3 \<or> m = 4 \<or> m = 5 \<or> m = 6 \<or> m = 7 \<or> m = 8 \<or>
      m = 9 \<or> m = 10 \<or> m = 11 \<or> m = 12"
    by arith
  then show ?thesis
    using r1 L
    by (elim disjE)
       (simp_all add: days_before_month_def DAYS_BEFORE_MONTH_def DAYS_IN_MONTH_def Let_def)
qed


lemma toordinal_ord2ymd:
  assumes n: "1 \<le> n"
  shows "toordinal (ord2ymd n) = n"
proof -
  define k where "k = n - 1"
  define a where "a = k div 146097"
  define r400 where "r400 = k mod 146097"
  define b where "b = r400 div 36524"
  define r100 where "r100 = r400 mod 36524"
  define c where "c = r100 div 1461"
  define r4 where "r4 = r100 mod 1461"
  define d where "d = r4 div 365"
  define r1 where "r1 = r4 mod 365"
  have k: "k = 146097 * a + r400" "0 \<le> r400" "r400 < 146097"
    by (simp_all add: a_def r400_def)
  have r400: "r400 = 36524 * b + r100" "0 \<le> r100" "r100 < 36524"
    by (simp_all add: b_def r100_def)
  have r100: "r100 = 1461 * c + r4" "0 \<le> r4" "r4 < 1461"
    by (simp_all add: c_def r4_def)
  have r4: "r4 = 365 * d + r1" "0 \<le> r1" "r1 < 365"
    by (simp_all add: d_def r1_def)
  have b: "0 \<le> b" "b \<le> 4" using k r400 by arith+
  have c: "0 \<le> c" "c \<le> 24" using r400 r100 by arith+
  have d: "0 \<le> d" "d \<le> 4" using r100 r4 by arith+
  have b4: "b = 4 \<Longrightarrow> c = 0 \<and> d = 0 \<and> r1 = 0" using k r400 r100 r4 c d by arith
  have d4: "d = 4 \<Longrightarrow> r1 = 0 \<and> c \<le> 23" using r400 r100 r4 c by arith
  have nk: "n = 146097 * a + 36524 * b + 1461 * c + 365 * d + r1 + 1"
    using k r400 r100 r4 by (simp add: k_def)
  let ?yraw = "a * 400 + 1 + b * 100 + c * 4 + d"
  let ?y = "400 * a + 100 * b + 4 * c + d + 1"
  let ?L = "d = 3 \<and> (c \<noteq> 24 \<or> b = 3)"
  let ?m = "(r1 + 50) div 32"
  let ?preceding = "DAYS_BEFORE_MONTH ! nat ?m + (if ?m > 2 \<and> ?L then 1 else 0)"
  have yraw: "?yraw = ?y" by simp
  have "ord2ymd n =
      (if d = 4 \<or> b = 4 then \<lparr>year = ?yraw - 1, month = 12, day = 31\<rparr>
       else if ?preceding > r1
            then \<lparr>year = ?yraw, month = ?m - 1,
                  day = r1 - (?preceding - (DAYS_IN_MONTH ! nat (?m - 1)
                                + (if ?m - 1 = 2 \<and> ?L then 1 else 0))) + 1\<rparr>
            else \<lparr>year = ?yraw, month = ?m, day = r1 - ?preceding + 1\<rparr>)"
    by (simp only: ord2ymd_def Let_def k_def a_def r400_def b_def r100_def c_def r4_def
        d_def r1_def)
  then have unfolded: "ord2ymd n =
      (if d = 4 \<or> b = 4 then \<lparr>year = ?y - 1, month = 12, day = 31\<rparr>
       else if ?preceding > r1
            then \<lparr>year = ?y, month = ?m - 1,
                  day = r1 - (?preceding - (DAYS_IN_MONTH ! nat (?m - 1)
                                + (if ?m - 1 = 2 \<and> ?L then 1 else 0))) + 1\<rparr>
            else \<lparr>year = ?y, month = ?m, day = r1 - ?preceding + 1\<rparr>)"
    by (simp only: yraw)
  show ?thesis
  proof (cases "d = 4 \<or> b = 4")
    case True
    then have res: "ord2ymd n = \<lparr>year = ?y - 1, month = 12, day = 31\<rparr>"
      by (simp add: unfolded)
    show ?thesis
    proof (cases "b = 4")
      case True
      with b4 have z: "c = 0" "d = 0" "r1 = 0" by simp_all
      have y: "?y - 1 = 400 * a + 100 * 3 + 4 * 24 + 3 + 1" using True z by simp
      have dby: "days_before_year (?y - 1) = 146097 * a + 36524 * 3 + 1461 * 24 + 365 * 3"
        unfolding y by (rule dby_regular) simp_all
      have "is_leap (?y - 1)"
        unfolding y by (subst leap_regular) simp_all
      then have dbm: "days_before_month (?y - 1) 12 = 335"
        by (simp add: days_before_month_def DAYS_BEFORE_MONTH_def)
      have "toordinal (ord2ymd n)
          = days_before_year (?y - 1) + days_before_month (?y - 1) 12 + 31"
        by (simp only: res toordinal_def ymd2ord_def date.simps)
      also have "\<dots> = n"
        unfolding dby dbm using True z nk by simp
      finally show ?thesis .
    next
      case False
      with True have d4': "d = 4" by simp
      with d4 have z: "r1 = 0" "c \<le> 23" by simp_all
      have b3: "b \<le> 3" using False b by simp
      have y: "?y - 1 = 400 * a + 100 * b + 4 * c + 3 + 1" using d4' by simp
      have dby: "days_before_year (?y - 1) = 146097 * a + 36524 * b + 1461 * c + 365 * 3"
        unfolding y by (rule dby_regular) (use b b3 c in simp_all)
      have "is_leap (?y - 1)"
        unfolding y by (subst leap_regular) (use b b3 c z in simp_all)
      then have dbm: "days_before_month (?y - 1) 12 = 335"
        by (simp add: days_before_month_def DAYS_BEFORE_MONTH_def)
      have "toordinal (ord2ymd n)
          = days_before_year (?y - 1) + days_before_month (?y - 1) 12 + 31"
        by (simp only: res toordinal_def ymd2ord_def date.simps)
      also have "\<dots> = n"
        unfolding dby dbm using d4' z nk by simp
      finally show ?thesis .
    qed
  next
    case False
    then have b3: "b \<le> 3" and d3: "d \<le> 3" using b d by simp_all
    have dby: "days_before_year ?y = 146097 * a + 36524 * b + 1461 * c + 365 * d"
      by (rule dby_regular) (use b b3 c d d3 in simp_all)
    have leap: "is_leap ?y = ?L"
      by (rule leap_regular) (use b b3 c d d3 in simp_all)
    have m: "1 \<le> ?m" "?m \<le> 12" using r4 by arith+
    have mp: "(if ?preceding > r1
             then days_before_month ?y (?m - 1)
                  + (r1 - (?preceding - (DAYS_IN_MONTH ! nat (?m - 1)
                                  + (if ?m - 1 = 2 \<and> ?L then 1 else 0))) + 1)
             else days_before_month ?y ?m + (r1 - ?preceding + 1)) = r1 + 1"
      by (rule month_part [OF m r4(2) leap, unfolded Let_def])
    have "toordinal (ord2ymd n) = days_before_year ?y +
        (if ?preceding > r1
             then days_before_month ?y (?m - 1)
                  + (r1 - (?preceding - (DAYS_IN_MONTH ! nat (?m - 1)
                                  + (if ?m - 1 = 2 \<and> ?L then 1 else 0))) + 1)
             else days_before_month ?y ?m + (r1 - ?preceding + 1))"
      using False by (simp only: unfolded toordinal_def ymd2ord_def if_False)
         (simp add: ac_simps)
    also have "\<dots> = days_before_year ?y + (r1 + 1)"
      by (simp only: mp)
    also have "\<dots> = n"
      using dby nk by simp
    finally show ?thesis .
  qed
qed

lemma date_add_days_toordinal:
  assumes "date_add_days d n = Some d'"
  shows "toordinal d' = toordinal d + n"
proof -
  from assms have "0 < toordinal d + n" and "d' = ord2ymd (toordinal d + n)"
    by (auto simp: date_add_days_def Let_def split: if_splits)
  then show ?thesis
    using toordinal_ord2ymd [of "toordinal d + n"] by simp
qed

subsection \<open>C3: an application with a wrong token creates nothing\<close>

text \<open>
  Claim C3. For every policy application (a POST of a logged-in user for an existing
  scheme) in which the submitted token, upper-cased, differs from the stored digital token
  of the user, the view answers with the page "Token Verification Failed" and the database
  is left as it was: no Policy row and no Nominee row is created, so the counts of both
  tables are the same before and after the call.
\<close>

theorem apply_policy_wrong_token:
  assumes "session_user_id sess = Some uid"
    and "query_get scheme_id (schemes s) sid = Some scheme"
    and "query_get user_id (users s) uid = Some user"
    and "str_upper L (form_get frm ''digital_token'') \<noteq> user_digital_token user"
  shows "apply_policy L e sess POST frm sid s = (Render TokenVerificationFailed, s) \<and>
         length (policies (snd (apply_policy L e sess POST frm sid s))) = length (policies s) \<and>
         length (nominees (snd (apply_policy L e sess POST frm sid s))) = length (nominees s)"
proof -
  have "apply_policy L e sess POST frm sid s = (Render TokenVerificationFailed, s)"
    using assms by (auto simp: apply_policy_def Let_def)
  then show ?thesis by simp
qed

text \<open>Alice applies with Bob's token.\<close>

theorem apply_policy_wrong_token_witness:
  "apply_policy ex_library ex_env (ex_session 1) POST
     (ex_apply_form(''digital_token'' \<mapsto> ''0f1e2d3c'')) 1 ex_db
     = (Render TokenVerificationFailed, ex_db) \<and>
   length (policies (snd (apply_policy ex_library ex_env (ex_session 1) POST
     (ex_apply_form(''digital_token'' \<mapsto> ''0f1e2d3c'')) 1 ex_db))) = 0"
proof -
  have 1: "session_user_id (ex_session 1) = Some 1"
    by (simp add: ex_session_def)
  have 2: "query_get scheme_id (schemes ex_db) 1 = Some ex_scheme"
    by (simp add: query_get_def ex_db_def ex_scheme_def)
  have 3: "query_get user_id (users ex_db) 1 = Some ex_alice"
    by (simp add: query_get_def ex_db_def ex_alice_def)
  have 4: "str_upper ex_library
             (form_get (ex_apply_form(''digital_token'' \<mapsto> ''0f1e2d3c'')) ''digital_token'')
             \<noteq> user_digital_token ex_alice"
    by (simp add: form_get_def ex_library_def ascii_upper_def upper_char_def ex_alice_def)
  from apply_policy_wrong_token [OF 1 2 3 4, of ex_env] show ?thesis
    by (simp add: ex_db_def)
qed

subsection \<open>The transaction of \<open>apply_policy\<close>\<close>

lemma apply_policy_cases:
  "snd (apply_policy L e sess meth frm sid s) = s \<or>
   (\<exists>p n. apply_policy L e sess meth frm sid s =
      (Render (ApplicationSuccessful p n),
       s\<lparr>policies := policies s @ [p], nominees := nominees s @ [n]\<rparr>))"
  by (simp add: apply_policy_def Let_def split: option.split)

lemma apply_policy_success:
  assumes "apply_policy L e sess meth frm sid s = (Render (ApplicationSuccessful p n), s')"
  shows "\<exists>uid user scheme end_date nname nrel.
           session_user_id sess = Some uid \<and>
           query_get scheme_id (schemes s) sid = Some scheme \<and>
           meth = POST \<and>
           query_get user_id (users s) uid = Some user \<and>
           user_digital_token user = str_upper L (form_get frm ''digital_token'') \<and>
           date_add_days (date_today e 1) (365 * 10) = Some end_date \<and>
           p = new_policy L e user scheme end_date s \<and>
           policy_policy_number p \<notin> set (map policy_policy_number (policies s)) \<and>
           frm ''nominee_name'' = Some nname \<and>
           frm ''nominee_relationship'' = Some nrel \<and>
           n = \<lparr>nominee_id = next_id (map nominee_id (nominees s)),
                nominee_user_id = user_id user,
                nominee_policy_id = Some (policy_id p),
                nominee_name = nname, nominee_relationship = nrel\<rparr> \<and>
           s' = s\<lparr>policies := policies s @ [p], nominees := nominees s @ [n]\<rparr>"
  using assms
  by (auto simp: apply_policy_def Let_def split: option.splits if_splits)

text \<open>
  Whatever the request, \<open>apply_policy\<close> either leaves the database as it was, or appends
  one policy and one nominee, committed together, and answers with the page "Application
  Successful". The policy has the status \<open>'applied'\<close>, the amounts of the chosen scheme and
  a primary key that no other policy has; the nominee refers to it and holds the name and
  the relationship submitted. Its \<open>start_date\<close> is the first reading of \<open>date.today()\<close>
  and its \<open>end_date\<close> is the date 3650 days after the second reading; when the two
  readings are the same date, \<open>end_date\<close> is \<open>start_date\<close> plus 3650 days.
\<close>

lemma apply_policy_atomic:
  "(snd (apply_policy L e sess meth frm sid s) = s \<or>
    (\<exists>p n. apply_policy L e sess meth frm sid s =
       (Render (ApplicationSuccessful p n),
        s\<lparr>policies := policies s @ [p], nominees := nominees s @ [n]\<rparr>))) \<and>
   (apply_policy L e sess meth frm sid s = (Render (ApplicationSuccessful p n), s') \<longrightarrow>
      (\<exists>scheme. query_get scheme_id (schemes s) sid = Some scheme \<and>
         policy_premium_amount p = scheme_premium_amount scheme \<and>
         policy_coverage_amount p = scheme_coverage_amount scheme) \<and>
      policy_status p = ''applied'' \<and>
      policy_start_date p = Some (date_today e 0) \<and>
      policy_end_date p = date_add_days (date_today e 1) 3650 \<and>
      (\<exists>d. policy_end_date p = Some d \<and> toordinal d = toordinal (date_today e 1) + 3650) \<and>
      (date_today e 1 = date_today e 0 \<longrightarrow>
         (\<exists>d0 d. policy_start_date p = Some d0 \<and> policy_end_date p = Some d \<and>
            date_add_days d0 3650 = Some d \<and> toordinal d = toordinal d0 + 3650)) \<and>
      policy_id p \<notin> set (map policy_id (policies s)) \<and>
      nominee_policy_id n = Some (policy_id p) \<and>
      nominee_user_id n = policy_user_id p \<and>
      frm ''nominee_name'' = Some (nominee_name n) \<and>
      frm ''nominee_relationship'' = Some (nominee_relationship n) \<and>
      policies s' = policies s @ [p] \<and>
      nominees s' = nominees s @ [n] \<and>
      users s' = users s \<and> schemes s' = schemes s \<and>
      claims s' = claims s \<and> reports s' = reports s)"
proof (intro conjI impI)
  show "snd (apply_policy L e sess meth frm sid s) = s \<or>
    (\<exists>p n. apply_policy L e sess meth frm sid s =
       (Render (ApplicationSuccessful p n),
        s\<lparr>policies := policies s @ [p], nominees := nominees s @ [n]\<rparr>))"
    by (rule apply_policy_cases)
next
  assume ok: "apply_policy L e sess meth frm sid s = (Render (ApplicationSuccessful p n), s')"
  from apply_policy_success [OF ok]
  obtain uid user scheme end_date nname nrel where
    sch: "query_get scheme_id (schemes s) sid = Some scheme"
    and ed: "date_add_days (date_today e 1) (365 * 10) = Some end_date"
    and p: "p = new_policy L e user scheme end_date s"
    and nn: "frm ''nominee_name'' = Some nname"
    and nr: "frm ''nominee_relationship'' = Some nrel"
    and n: "n = \<lparr>nominee_id = next_id (map nominee_id (nominees s)),
                nominee_user_id = user_id user,
                nominee_policy_id = Some (policy_id p),
                nominee_name = nname, nominee_relationship = nrel\<rparr>"
    and s': "s' = s\<lparr>policies := policies s @ [p], nominees := nominees s @ [n]\<rparr>"
    by blast
  show "\<exists>scheme. query_get scheme_id (schemes s) sid = Some scheme \<and>
         policy_premium_amount p = scheme_premium_amount scheme \<and>
         policy_coverage_amount p = scheme_coverage_amount scheme"
    using sch p by (simp add: new_policy_def)
  show "policy_status p = ''applied''" using p by (simp add: new_policy_def)
  show "policy_start_date p = Some (date_today e 0)" using p by (simp add: new_policy_def)
  show "policy_end_date p = date_add_days (date_today e 1) 3650"
    using p ed by (simp add: new_policy_def)
  show "\<exists>d. policy_end_date p = Some d \<and> toordinal d = toordinal (date_today e 1) + 3650"
    using p date_add_days_toordinal [OF ed] by (simp add: new_policy_def)
  show "\<exists>d0 d. policy_start_date p = Some d0 \<and> policy_end_date p = Some d \<and>
            date_add_days d0 3650 = Some d \<and> toordinal d = toordinal d0 + 3650"
    if "date_today e 1 = date_today e 0"
    using that p ed date_add_days_toordinal [OF ed] by (simp add: new_policy_def)
  show "policy_id p \<notin> set (map policy_id (policies s))"
    using p next_id_fresh [of "map policy_id (policies s)"] by (simp add: new_policy_def)
  show "nominee_policy_id n = Some (policy_id p)" using n by simp
  show "nominee_user_id n = policy_user_id p" using n p by (simp add: new_policy_def)
  show "frm ''nominee_name'' = Some (nominee_name n)" using n nn by simp
  show "frm ''nominee_relationship'' = Some (nominee_relationship n)" using n nr by simp
  show "policies s' = policies s @ [p]" using s' by simp
  show "nominees s' = nominees s @ [n]" using s' by simp
  show "users s' = users s" using s' by simp
  show "schemes s' = schemes s" using s' by simp
  show "claims s' = claims s" using s' by simp
  show "reports s' = reports s" using s' by simp
qed

text \<open>Alice applies for "Pure Life Term Insurance" (premium 750, coverage 10000000) on
  2024-03-15 with the nominee Jane Doe, her spouse.\<close>

lemma ex_queries:
  "query_get scheme_id (schemes ex_db) 1 = Some ex_scheme"
  "query_get user_id (users ex_db) 1 = Some ex_alice"
  by (simp_all add: query_get_def ex_db_def ex_scheme_def ex_alice_def)

lemma ex_end_date:
  "date_add_days \<lparr>year = 2024, month = 3, day = 15\<rparr> 3650
     = Some \<lparr>year = 2034, month = 3, day = 13\<rparr>"
  "date_add_days \<lparr>year = 2024, month = 3, day = 16\<rparr> 3650
     = Some \<lparr>year = 2034, month = 3, day = 14\<rparr>"
  by (simp_all add: date_add_days_def toordinal_def ymd2ord_def days_before_year_def
      days_before_month_def DAYS_BEFORE_MONTH_def DAYS_IN_MONTH_def is_leap_def
      MAXORDINAL_def ord2ymd_def Let_def)

lemma ex_token_entered:
  "str_upper ex_library (form_get ex_apply_form ''digital_token'') = user_digital_token ex_alice"
  by (simp add: ex_library_def ex_apply_form_def form_get_def ascii_upper_def upper_char_def
      ex_alice_def)

lemma ex_policy_number:
  "generate_policy_number ex_library ex_env 0 = ''POL2024031510309F8E7D''"
  "generate_policy_number ex_library ex_env_midnight 0 = ''POL2024031523599F8E7D''"
  by (simp_all add: generate_policy_number_def strftime_YmdHM_def pad4_def pad2_def digit_def
      ex_env_midnight_def ex_env_def ex_t0_def ex_before_midnight_def ex_library_def
      ascii_upper_def upper_char_def)

lemma ex_new_policy:
  "new_policy ex_library e ex_alice ex_scheme d ex_db =
     ex_policy\<lparr>policy_policy_number := generate_policy_number ex_library e 0,
               policy_start_date := Some (date_today e 0),
               policy_end_date := Some d,
               policy_created_at := datetime_utcnow e\<rparr>"
  by (simp add: new_policy_def ex_policy_def ex_db_def ex_alice_def ex_scheme_def next_id_def)

lemma ex_nominee_form:
  "ex_apply_form ''nominee_name'' = Some ''Jane Doe''"
  "ex_apply_form ''nominee_relationship'' = Some ''spouse''"
  by (simp_all add: ex_apply_form_def)

lemma ex_apply_policy:
  "apply_policy ex_library ex_env (ex_session 1) POST ex_apply_form 1 ex_db =
     (Render (ApplicationSuccessful ex_policy ex_nominee), ex_db_applied)"
proof -
  have today: "date_today ex_env 0 = \<lparr>year = 2024, month = 3, day = 15\<rparr>"
    "date_today ex_env 1 = \<lparr>year = 2024, month = 3, day = 15\<rparr>"
    "datetime_utcnow ex_env = ex_t0"
    by (simp_all add: ex_env_def)
  have p: "ex_policy\<lparr>policy_policy_number := ''POL2024031510309F8E7D'',
               policy_start_date := Some \<lparr>year = 2024, month = 3, day = 15\<rparr>,
               policy_end_date := Some \<lparr>year = 2034, month = 3, day = 13\<rparr>,
               policy_created_at := ex_t0\<rparr> = ex_policy"
    by (simp add: ex_policy_def)
  show ?thesis
    by (simp add: apply_policy_def Let_def ex_session_def ex_queries ex_token_entered
        today ex_end_date ex_new_policy ex_policy_number p ex_nominee_form del: One_nat_def)
       (simp add: ex_db_def ex_db_applied_def ex_nominee_def ex_alice_def ex_policy_def
          next_id_def)
qed

lemma ex_apply_policy_atomic:
  "apply_policy ex_library ex_env (ex_session 1) POST ex_apply_form 1 ex_db =
     (Render (ApplicationSuccessful ex_policy ex_nominee), ex_db_applied) \<and>
   policy_status ex_policy = ''applied'' \<and>
   policy_premium_amount ex_policy = 750 \<and>
   policy_coverage_amount ex_policy = 10000000 \<and>
   policy_start_date ex_policy = Some \<lparr>year = 2024, month = 3, day = 15\<rparr> \<and>
   policy_end_date ex_policy = Some \<lparr>year = 2034, month = 3, day = 13\<rparr> \<and>
   policies ex_db_applied = [ex_policy] \<and> nominees ex_db_applied = [ex_nominee] \<and>
   nominee_policy_id ex_nominee = Some (policy_id ex_policy)"
proof -
  note ok = ex_apply_policy
  note t = apply_policy_atomic [of ex_library ex_env "ex_session 1" POST ex_apply_form 1 ex_db
      ex_policy ex_nominee ex_db_applied, THEN conjunct2, rule_format, OF ok]
  have today: "date_today ex_env 0 = \<lparr>year = 2024, month = 3, day = 15\<rparr>"
    "date_today ex_env 1 = \<lparr>year = 2024, month = 3, day = 15\<rparr>"
    by (simp_all add: ex_env_def)
  have sch: "scheme_premium_amount ex_scheme = 750" "scheme_coverage_amount ex_scheme = 10000000"
    by (simp_all add: ex_scheme_def)
  from t have 1: "policy_status ex_policy = ''applied''" by blast
  from t have 2: "policy_start_date ex_policy = Some (date_today ex_env 0)" by blast
  from t have 3: "policy_end_date ex_policy = date_add_days (date_today ex_env 1) 3650" by blast
  from t have 4: "policies ex_db_applied = policies ex_db @ [ex_policy]"
    "nominees ex_db_applied = nominees ex_db @ [ex_nominee]"
    "nominee_policy_id ex_nominee = Some (policy_id ex_policy)" by blast+
  from t obtain scheme where s: "query_get scheme_id (schemes ex_db) 1 = Some scheme"
    "policy_premium_amount ex_policy = scheme_premium_amount scheme"
    "policy_coverage_amount ex_policy = scheme_coverage_amount scheme" by blast
  from s(1) ex_queries(1) have "scheme = ex_scheme" by simp
  with s sch have 5: "policy_premium_amount ex_policy = 750"
    "policy_coverage_amount ex_policy = 10000000" by simp_all
  have 6: "policies ex_db = []" "nominees ex_db = []" by (simp_all add: ex_db_def)
  from ok 1 2 3 4 5 show ?thesis
    by (simp add: today ex_end_date 6 del: One_nat_def)
qed

subsection \<open>C4: the end date of a policy applied for at midnight\<close>

text \<open>
  Claim C4 states that every successful policy application creates exactly one Policy with
  status \<open>'applied'\<close>, the amounts of the chosen scheme and \<open>end_date\<close> equal to
  \<open>start_date\<close> plus 3650 days, together with exactly one Nominee, both persisted or
  neither. The view does all of this (\<open>apply_policy_atomic\<close>) but for the end date:
  it does not add the 3650 days to \<open>start_date\<close>, it calls \<open>date.today()\<close> a second time
  and adds them to that. When the date changes between the two calls, the policy stored
  starts on the old day and ends 3650 days after the new day. Alice's application below
  is handled at midnight after 2024-03-15: its policy starts on 2024-03-15 and ends on
  2034-03-14, which is 3651 days later, while \<open>start_date\<close> plus 3650 days is 2034-03-13.
\<close>

theorem apply_policy_end_date_midnight:
  "date_today ex_env_midnight 0 = \<lparr>year = 2024, month = 3, day = 15\<rparr> \<and>
   date_today ex_env_midnight 1 = \<lparr>year = 2024, month = 3, day = 16\<rparr> \<and>
   apply_policy ex_library ex_env_midnight (ex_session 1) POST ex_apply_form 1 ex_db =
     (Render (ApplicationSuccessful
        (ex_policy\<lparr>policy_policy_number := ''POL2024031523599F8E7D'',
                   policy_start_date := Some \<lparr>year = 2024, month = 3, day = 15\<rparr>,
                   policy_end_date := Some \<lparr>year = 2034, month = 3, day = 14\<rparr>,
                   policy_created_at := ex_after_midnight\<rparr>)
        ex_nominee),
      ex_db\<lparr>policies :=
               [ex_policy\<lparr>policy_policy_number := ''POL2024031523599F8E7D'',
                          policy_start_date := Some \<lparr>year = 2024, month = 3, day = 15\<rparr>,
                          policy_end_date := Some \<lparr>year = 2034, month = 3, day = 14\<rparr>,
                          policy_created_at := ex_after_midnight\<rparr>],
             nominees := [ex_nominee]\<rparr>) \<and>
   date_add_days \<lparr>year = 2024, month = 3, day = 15\<rparr> 3650
     = Some \<lparr>year = 2034, month = 3, day = 13\<rparr> \<and>
   toordinal \<lparr>year = 2034, month = 3, day = 14\<rparr>
     = toordinal \<lparr>year = 2024, month = 3, day = 15\<rparr> + 3651"
proof -
  have today: "date_today ex_env_midnight 0 = \<lparr>year = 2024, month = 3, day = 15\<rparr>"
    "date_today ex_env_midnight 1 = \<lparr>year = 2024, month = 3, day = 16\<rparr>"
    "datetime_utcnow ex_env_midnight = ex_after_midnight"
    by (simp_all add: ex_env_midnight_def)
  have ord: "toordinal \<lparr>year = 2034, month = 3, day = 14\<rparr>
     = toordinal \<lparr>year = 2024, month = 3, day = 15\<rparr> + 3651"
    by (simp add: toordinal_def ymd2ord_def days_before_year_def days_before_month_def
        DAYS_BEFORE_MONTH_def is_leap_def)
  have run: "apply_policy ex_library ex_env_midnight (ex_session 1) POST ex_apply_form 1 ex_db =
     (Render (ApplicationSuccessful
        (ex_policy\<lparr>policy_policy_number := ''POL2024031523599F8E7D'',
                   policy_start_date := Some \<lparr>year = 2024, month = 3, day = 15\<rparr>,
                   policy_end_date := Some \<lparr>year = 2034, month = 3, day = 14\<rparr>,
                   policy_created_at := ex_after_midnight\<rparr>)
        ex_nominee),
      ex_db\<lparr>policies :=
               [ex_policy\<lparr>policy_policy_number := ''POL2024031523599F8E7D'',
                          policy_start_date := Some \<lparr>year = 2024, month = 3, day = 15\<rparr>,
                          policy_end_date := Some \<lparr>year = 2034, month = 3, day = 14\<rparr>,
                          policy_created_at := ex_after_midnight\<rparr>],
             nominees := [ex_nominee]\<rparr>)"
    by (simp add: apply_policy_def Let_def ex_session_def ex_queries ex_token_entered
        today ex_end_date ex_new_policy ex_policy_number ex_nominee_form del: One_nat_def)
       (simp add: ex_db_def ex_nominee_def ex_alice_def ex_policy_def next_id_def)
  from today(1,2) run ex_end_date(1) ord show ?thesis
    by (simp only: simp_thms)
qed

subsection \<open>C5: withdrawing twice\<close>

lemma query_get_map:
  assumes "\<And>x. pk (f x) = pk x"
  shows "query_get pk (map f rows) i = map_option f (query_get pk rows i)"
  using assms by (induction rows) (simp_all add: query_get_def)

lemma withdrawn_not_withdrawable:
  "policy_status p = ''withdrawn'' \<Longrightarrow> \<not> is_withdrawable e p"
  by (simp add: is_withdrawable_def)

text \<open>
  Claim C5. For every policy that the caller owns, whose status is \<open>'applied'\<close> and whose
  age is under 24 hours, the first call of \<open>withdraw_policy\<close> sets its status to
  \<open>'withdrawn'\<close> and leaves its other fields as they were; a second call on the same
  policy, at whatever time, raises no error (it answers with the same redirect) and leaves
  the database, and so the status \<open>'withdrawn'\<close>, as the first call left it.
\<close>

theorem withdraw_policy_twice:
  assumes sess: "session_user_id sess = Some uid"
    and found: "query_get policy_id (policies s) pid = Some p"
    and owner: "policy_user_id p = uid"
    and applied: "policy_status p = ''applied''"
    and fresh: "datetime_sub (datetime_utcnow e) (policy_created_at p) < 86400 * 1000000"
  shows "fst (withdraw_policy e sess pid s) = Redirect ''/my-policies'' \<and>
         query_get policy_id (policies (snd (withdraw_policy e sess pid s))) pid
           = Some (p\<lparr>policy_status := ''withdrawn''\<rparr>) \<and>
         withdraw_policy e' sess pid (snd (withdraw_policy e sess pid s))
           = (Redirect ''/my-policies'', snd (withdraw_policy e sess pid s))"
proof -
  let ?upd = "\<lambda>x. if policy_id x = pid then x\<lparr>policy_status := ''withdrawn''\<rparr> else x"
  let ?s1 = "s\<lparr>policies := map ?upd (policies s)\<rparr>"
  have w: "is_withdrawable e p"
    using applied fresh by (simp add: is_withdrawable_def total_seconds_less)
  have first: "withdraw_policy e sess pid s = (Redirect ''/my-policies'', ?s1)"
    using sess found owner w by (simp add: withdraw_policy_def)
  have pid: "policy_id p = pid"
    using found by (auto simp: query_get_def dest: find_Some_iff [THEN iffD1])
  have "query_get policy_id (policies ?s1) pid = map_option ?upd (Some p)"
    using found by (simp add: query_get_map)
  then have found1: "query_get policy_id (policies ?s1) pid
      = Some (p\<lparr>policy_status := ''withdrawn''\<rparr>)"
    using pid by simp
  have "\<not> is_withdrawable e' (p\<lparr>policy_status := ''withdrawn''\<rparr>)"
    by (rule withdrawn_not_withdrawable) simp
  then have second: "withdraw_policy e' sess pid ?s1 = (Redirect ''/my-policies'', ?s1)"
    using sess found1 by (simp add: withdraw_policy_def)
  show ?thesis
    using first found1 second by simp
qed

text \<open>Alice withdraws her policy one microsecond before the window closes, and again
  when it has closed.\<close>

theorem withdraw_policy_twice_witness:
  "fst (withdraw_policy (ex_env\<lparr>datetime_utcnow := ex_in_window\<rparr>) (ex_session 1) 1
          ex_db_applied) = Redirect ''/my-policies'' \<and>
   query_get policy_id
     (policies (snd (withdraw_policy (ex_env\<lparr>datetime_utcnow := ex_in_window\<rparr>)
                       (ex_session 1) 1 ex_db_applied))) 1
     = Some (ex_policy\<lparr>policy_status := ''withdrawn''\<rparr>) \<and>
   withdraw_policy (ex_env\<lparr>datetime_utcnow := ex_expired\<rparr>) (ex_session 1) 1
     (snd (withdraw_policy (ex_env\<lparr>datetime_utcnow := ex_in_window\<rparr>) (ex_session 1) 1
             ex_db_applied))
     = (Redirect ''/my-policies'',
        snd (withdraw_policy (ex_env\<lparr>datetime_utcnow := ex_in_window\<rparr>) (ex_session 1) 1
               ex_db_applied))"
proof -
  have 1: "session_user_id (ex_session 1) = Some 1"
    by (simp add: ex_session_def)
  have 2: "policy_user_id ex_policy = 1"
    by (simp add: ex_policy_def)
  have 3: "policy_status ex_policy = ''applied''"
    by (simp add: ex_policy_def)
  have 4: "datetime_sub (datetime_utcnow (ex_env\<lparr>datetime_utcnow := ex_in_window\<rparr>))
             (policy_created_at ex_policy) < 86400 * 1000000"
    by (simp add: ex_policy_def ex_elapsed_in_window)
  show ?thesis
    by (rule withdraw_policy_twice [OF 1 ex_query_get_policy 2 3 4])
qed

subsection \<open>Evaluation of \<open>register\<close> on the example\<close>

lemma ex_strptime: "strptime_date ex_library ''1994-03-15''
    = Some \<lparr>year = 1994, month = 3, day = 15\<rparr>"
  by (simp add: ex_library_def)

lemma ex_upper_pan: "str_upper ex_library ''lmnop4321q'' = ''LMNOP4321Q''"
  by (simp add: ex_library_def ascii_upper_def upper_char_def)

lemma ex_validate_pan: "validate_pan ex_library ''lmnop4321q''"
  by (simp add: validate_pan_def ex_upper_pan isupper_ascii_def isdigit_ascii_def)

lemma ex_no_missing: "find (field_missing ex_register_data) required_fields = None"
  by (simp add: required_fields_def field_missing_def ex_register_data_def)

lemma ex_age: "calculate_age e \<lparr>year = 1994, month = 3, day = 15\<rparr> = 30"
  if "date_today e 0 = \<lparr>year = 2024, month = 3, day = 15\<rparr>"
  using that by (simp add: calculate_age_def)

lemma ex_getitem:
  "getitem ex_register_data ''username'' = ''carol''"
  "getitem ex_register_data ''password'' = ''tr0ub4dor''"
  "getitem ex_register_data ''email'' = ''Carol@Example.com''"
  "getitem ex_register_data ''pan_number'' = ''lmnop4321q''"
  "getitem ex_register_data ''date_of_birth'' = ''1994-03-15''"
  by (simp_all add: getitem_def ex_register_data_def)

lemma ex_columns:
  "map user_username (users ex_db) = [''alice'', ''bob'']"
  "map user_email (users ex_db) = [''alice@example.com'', ''bob@example.com'']"
  "map user_pan_number (users ex_db) = [''ABCDE1234F'', ''PQRST5678U'']"
  "map user_digital_token (users ex_db) = [''A1B2C3D4'', ''0F1E2D3C'']"
  "map user_id (users ex_db) = [1, 2]"
  by (simp_all add: ex_db_def ex_alice_def ex_bob_def)

lemma ex_lookups:
  "filter_by_first user_username ''carol'' (users ex_db) = Inr None"
  "filter_by_first user_email ''Carol@Example.com'' (users ex_db) = Inr None"
  "filter_by_first user_pan_number ''LMNOP4321Q'' (users ex_db) = Inr None"
  by (simp_all add: filter_by_first_def encode_utf8_def ex_db_def ex_alice_def ex_bob_def)

lemma ex_hash: "hash_password ex_library ''tr0ub4dor'' = Inr ''sha256:tr0ub4dor''"
  by (simp add: hash_password_def encode_utf8_def ex_library_def)

lemma ex_new_user:
  "new_user ex_library e ex_register_data ''sha256:tr0ub4dor''
       \<lparr>year = 1994, month = 3, day = 15\<rparr> 30 ex_db
     = ex_carol\<lparr>user_digital_token := generate_token ex_library e,
                user_created_at := datetime_utcnow e,
                user_face_data := None, user_retina_data := None\<rparr>"
  by (simp add: new_user_def ex_carol_def ex_register_data_def getitem_def ex_columns
      next_id_def ex_library_def generate_token_def ascii_upper_def upper_char_def
      ascii_lower_def lower_char_def ascii_strip_def isspace_def whitespace_def)

lemma ex_tokens:
  "generate_token ex_library ex_env = ''9F8E7D6C''"
  "generate_token ex_library ex_env_collision = ''A1B2C3D4''"
  by (simp_all add: generate_token_def ex_env_def ex_env_collision_def ex_library_def
      ascii_upper_def upper_char_def)

lemma ex_encodes:
  "\<not> list_ex has_surrogate (user_strings (ex_carol\<lparr>user_digital_token := ''9F8E7D6C'',
      user_created_at := t, user_face_data := None, user_retina_data := None\<rparr>))"
  "\<not> list_ex has_surrogate (user_strings (ex_carol\<lparr>user_digital_token := ''A1B2C3D4'',
      user_created_at := t, user_face_data := None, user_retina_data := None\<rparr>))"
  by (simp_all add: user_strings_def ex_carol_def ex_library_def)

lemma ex_register:
  "register ex_library ex_env POST ex_register_data ex_db =
     (Jsonify (RegisterOk ''9F8E7D6C''
        ''Registration successful! Please save your digital token securely.'') 200,
      ex_db\<lparr>users := [ex_alice, ex_bob, ex_carol]\<rparr>)"
proof -
  have today: "date_today ex_env 0 = \<lparr>year = 2024, month = 3, day = 15\<rparr>"
    by (simp add: ex_env_def)
  have nv: "\<not> user_unique_violation
      (ex_carol\<lparr>user_digital_token := ''9F8E7D6C'', user_created_at := datetime_utcnow ex_env,
                user_face_data := None, user_retina_data := None\<rparr>) ex_db"
    by (simp add: user_unique_violation_def ex_columns ex_carol_def)
  have carol: "ex_carol\<lparr>user_digital_token := ''9F8E7D6C'',
      user_created_at := datetime_utcnow ex_env, user_face_data := Some ''verified'',
      user_retina_data := Some ''verified''\<rparr> = ex_carol"
    by (simp add: ex_carol_def ex_env_def)
  show ?thesis
    by (simp add: register_def register_user_def ex_no_missing ex_getitem ex_upper_pan
        ex_lookups ex_validate_pan ex_strptime ex_age [OF today] ex_hash ex_new_user
        ex_tokens ex_encodes nv carol)
       (simp add: ex_db_def)
qed

lemma ex_register_collision:
  "register ex_library ex_env_collision POST ex_register_data ex_db =
     (Jsonify (RegistrationFailed IntegrityError) 500, ex_db)"
proof -
  have today: "date_today ex_env_collision 0 = \<lparr>year = 2024, month = 3, day = 15\<rparr>"
    by (simp add: ex_env_collision_def ex_env_def)
  have v: "user_unique_violation
      (ex_carol\<lparr>user_digital_token := ''A1B2C3D4'',
                user_created_at := datetime_utcnow ex_env_collision,
                user_face_data := None, user_retina_data := None\<rparr>) ex_db"
    by (simp add: user_unique_violation_def ex_columns)
  show ?thesis
    by (simp add: register_def register_user_def ex_no_missing ex_getitem ex_upper_pan
        ex_lookups ex_validate_pan ex_strptime ex_age [OF today] ex_hash ex_new_user
        ex_tokens ex_encodes v)
qed

text \<open>Carol registers with the password that is the one code point U+D800:
  \<open>hash_password\<close> raises, and the \<open>except\<close> clause answers with status 500.\<close>

lemma ex_register_surrogate:
  "register ex_library ex_env POST (ex_register_data(''password'' \<mapsto> ex_lone_surrogate)) ex_db
     = (Jsonify (RegistrationFailed UnicodeEncodeError) 500, ex_db)"
proof -
  let ?data = "ex_register_data(''password'' \<mapsto> ex_lone_surrogate)"
  have today: "date_today ex_env 0 = \<lparr>year = 2024, month = 3, day = 15\<rparr>"
    by (simp add: ex_env_def)
  have missing: "find (field_missing ?data) required_fields = None"
    by (simp add: required_fields_def field_missing_def ex_register_data_def
        ex_lone_surrogate_def)
  have items:
    "getitem ?data ''username'' = ''carol''"
    "getitem ?data ''password'' = ex_lone_surrogate"
    "getitem ?data ''email'' = ''Carol@Example.com''"
    "getitem ?data ''pan_number'' = ''lmnop4321q''"
    "getitem ?data ''date_of_birth'' = ''1994-03-15''"
    by (simp_all add: getitem_def ex_register_data_def)
  have raises: "hash_password ex_library ex_lone_surrogate = Inl UnicodeEncodeError"
    by (simp add: hash_password_def encode_utf8_def ex_lone_surrogate_def)
  show ?thesis
    by (simp add: register_def register_user_def missing items ex_upper_pan ex_lookups
        ex_validate_pan ex_strptime ex_age [OF today] raises)
qed

subsection \<open>C6: the digital token of a new user\<close>

lemma register_success:
  assumes "register L e meth data s = (Jsonify (RegisterOk tok msg) code, s')"
  shows "\<exists>password_hash birth_date calculated_age.
           hash_password L (getitem data ''password'') = Inr password_hash \<and>
           \<not> user_unique_violation
               (new_user L e data password_hash birth_date calculated_age s) s \<and>
           tok = generate_token L e \<and>
           s' = s\<lparr>users := users s @
                  [(new_user L e data password_hash birth_date calculated_age s)
                     \<lparr>user_face_data := Some ''verified'',
                       user_retina_data := Some ''verified''\<rparr>]\<rparr>"
proof -
  have tok: "user_digital_token (new_user L e data h b a s) = generate_token L e" for h b a
    by (simp add: new_user_def)
  show ?thesis
    using assms
    by (auto simp: register_def register_user_def Let_def tok
        split: option.splits if_splits sum.splits)
qed

lemma register_changes:
  assumes "snd (register L e meth data s) \<noteq> s"
  shows "\<exists>tok msg code s'. register L e meth data s = (Jsonify (RegisterOk tok msg) code, s')"
  using assms
  by (auto simp: register_def register_user_def Let_def
      split: option.splits if_splits sum.splits)

text \<open>
  Claim C6, as the code has it. The claim says that the token generator is
  collision-checked against the existing tokens; \<open>generate_token\<close> is not: it returns the
  first eight characters of a random UUID, upper-cased, whatever tokens exist, and it does
  not read the database. What holds is this. For every registration that succeeds, the
  digital token returned is the generated one, no existing user has it at the moment of
  creation, it is the token of the one user that the registration appends, and tokens that
  were pairwise distinct stay so. The uniqueness comes from the unique constraint on the
  token column: when the generated token is the token of an existing user, the
  registration does not succeed and creates no user.
\<close>

theorem register_token_unique:
  "(register L e meth data s = (Jsonify (RegisterOk tok msg) code, s') \<longrightarrow>
      tok = str_upper L (take 8 (uuid_uuid4 e)) \<and>
      tok \<notin> set (map user_digital_token (users s)) \<and>
      (\<exists>u. users s' = users s @ [u] \<and> user_digital_token u = tok) \<and>
      (distinct (map user_digital_token (users s)) \<longrightarrow>
         distinct (map user_digital_token (users s')))) \<and>
   (generate_token L e \<in> set (map user_digital_token (users s)) \<longrightarrow>
      snd (register L e meth data s) = s \<and>
      fst (register L e meth data s) \<noteq> Jsonify (RegisterOk tok msg) code)"
proof -
  have inv: "tok = generate_token L e \<and>
      tok \<notin> set (map user_digital_token (users s)) \<and>
      (\<exists>u. users s' = users s @ [u] \<and> user_digital_token u = tok)"
    if ok: "register L e meth data s = (Jsonify (RegisterOk tok msg) code, s')"
    for tok msg code s'
  proof -
    from register_success [OF ok]
    obtain password_hash birth_date calculated_age where
      nv: "\<not> user_unique_violation
             (new_user L e data password_hash birth_date calculated_age s) s"
      and tok: "tok = generate_token L e"
      and s': "s' = s\<lparr>users := users s @
              [(new_user L e data password_hash birth_date calculated_age s)
                 \<lparr>user_face_data := Some ''verified'', user_retina_data := Some ''verified''\<rparr>]\<rparr>"
      by blast
    have "tok \<notin> set (map user_digital_token (users s))"
      using nv tok by (simp add: user_unique_violation_def new_user_def)
    moreover have "\<exists>u. users s' = users s @ [u] \<and> user_digital_token u = tok"
      using s' tok by (simp add: new_user_def)
    ultimately show ?thesis using tok by simp
  qed
  show ?thesis
  proof (intro conjI impI)
    assume ok: "register L e meth data s = (Jsonify (RegisterOk tok msg) code, s')"
    note i = inv [OF ok]
    show "tok = str_upper L (take 8 (uuid_uuid4 e))"
      using i by (simp add: generate_token_def)
    show "tok \<notin> set (map user_digital_token (users s))"
      using i by blast
    show "\<exists>u. users s' = users s @ [u] \<and> user_digital_token u = tok"
      using i by blast
    show "distinct (map user_digital_token (users s'))"
      if "distinct (map user_digital_token (users s))"
      using that i by auto
  next
    assume c: "generate_token L e \<in> set (map user_digital_token (users s))"
    have no: "register L e meth data s \<noteq> (Jsonify (RegisterOk tok' msg') code', s'')"
      for tok' msg' code' s''
      using inv [of tok' msg' code' s''] c by auto
    show "snd (register L e meth data s) = s"
      using register_changes [of L e meth data s] no by blast
    show "fst (register L e meth data s) \<noteq> Jsonify (RegisterOk tok msg) code"
      using no [of tok msg code "snd (register L e meth data s)"]
      by (metis prod.collapse)
  qed
qed

text \<open>Carol registers, once with a fresh token and once in an environment whose UUID
  repeats Alice's token.\<close>

theorem register_token_unique_witness:
  "register ex_library ex_env POST ex_register_data ex_db =
     (Jsonify (RegisterOk ''9F8E7D6C''
        ''Registration successful! Please save your digital token securely.'') 200,
      ex_db\<lparr>users := [ex_alice, ex_bob, ex_carol]\<rparr>) \<and>
   ''9F8E7D6C'' \<notin> set (map user_digital_token (users ex_db)) \<and>
   distinct (map user_digital_token (users (ex_db\<lparr>users := [ex_alice, ex_bob, ex_carol]\<rparr>))) \<and>
   generate_token ex_library ex_env_collision \<in> set (map user_digital_token (users ex_db)) \<and>
   snd (register ex_library ex_env_collision POST ex_register_data ex_db) = ex_db"
proof -
  have d: "distinct (map user_digital_token (users ex_db))"
    by (simp add: ex_columns)
  have c: "generate_token ex_library ex_env_collision
      \<in> set (map user_digital_token (users ex_db))"
    by (simp add: ex_columns ex_tokens)
  from register_token_unique [THEN conjunct1, rule_format, OF ex_register]
    register_token_unique [THEN conjunct2, rule_format, OF c, of POST ex_register_data]
    ex_register d c
  show ?thesis by blast
qed

text \<open>The generator returns Alice's token while Alice is a user: it is not checked
  against the existing tokens. The registration then fails at the insert.\<close>

theorem generate_token_collision:
  "generate_token ex_library ex_env_collision = user_digital_token ex_alice \<and>
   ex_alice \<in> set (users ex_db) \<and>
   register ex_library ex_env_collision POST ex_register_data ex_db =
     (Jsonify (RegistrationFailed IntegrityError) 500, ex_db)"
  using ex_register_collision by (simp add: ex_tokens ex_alice_def ex_db_def)

subsection \<open>Login with string credentials\<close>

lemma login_strings:
  assumes "carries req u p"
  shows "login L e POST req sess s =
     (if str_strip L u = [] \<or> p = []
      then (Jsonify (Failure ''Username and password are required'') 400, sess, s)
      else
        (case filter_by_first user_username (str_strip L u) (users s) of
           Inl x \<Rightarrow> (Jsonify (Failure ''Login failed. Please try again.'') 500, sess, s)
         | Inr None \<Rightarrow> (Jsonify (Failure ''Invalid username or password'') 401, sess, s)
         | Inr (Some user) \<Rightarrow>
             (case verify_password L p (user_password_hash user) of
                Inl x \<Rightarrow> (Jsonify (Failure ''Login failed. Please try again.'') 500, sess, s)
              | Inr verified \<Rightarrow>
                  if verified
                  then (Jsonify (LoginOk ''/dashboard'') 200,
                        sess\<lparr>session_user_id := Some (user_id user), session_permanent := True\<rparr>,
                        s\<lparr>users := map (\<lambda>x. if user_id x = user_id user
                                            then x\<lparr>user_last_login := Some (datetime_utcnow e)\<rparr>
                                            else x) (users s)\<rparr>)
                  else (Jsonify (Failure ''Invalid username or password'') 401, sess, s))))"
proof (cases req)
  case (FormRequest fu fp)
  with assms have "fu = Some u" "fp = Some p" by (simp_all add: carries_def)
  with FormRequest show ?thesis
    by (simp add: login_def login_data_def dict_get_def Let_def
        split: option.split sum.split)
next
  case (JsonRequest j)
  with assms obtain kvs where j: "j = Some (JObject kvs)"
    and u: "map_of kvs ''username'' = Some (JString u)"
    and p: "map_of kvs ''password'' = Some (JString p)"
    by (auto simp: carries_def split: option.splits json.splits)
  from u have "kvs \<noteq> []" by auto
  with JsonRequest j u p show ?thesis
    by (simp add: login_def login_data_def dict_get_def Let_def
        split: option.split sum.split)
qed

lemma ex_strip_alice: "str_strip ex_library ''alice'' = ''alice''"
  by (simp add: ex_library_def ascii_strip_def isspace_def whitespace_def)

lemma ex_strip_mallory: "str_strip ex_library ''mallory'' = ''mallory''"
  by (simp add: ex_library_def ascii_strip_def isspace_def whitespace_def)

lemma ex_find_alice:
  "filter_by_first user_username ''alice'' (users ex_db) = Inr (Some ex_alice)"
  by (simp add: filter_by_first_def encode_utf8_def ex_db_def ex_alice_def)

lemma ex_find_mallory:
  "filter_by_first user_username ''mallory'' (users ex_db) = Inr None"
  by (simp add: filter_by_first_def encode_utf8_def ex_db_def ex_alice_def ex_bob_def)

subsection \<open>Failed logins with credentials that encode\<close>

text \<open>
  For every pair of failed login attempts that carry a username and a password as strings
  and pass the check of the required fields (a username that is not blank, a password that
  is not empty), one with a username that the lookup does not find and one with the
  username of a user and a password that \<open>verify_password\<close> compares with the stored hash
  and finds different, \<open>login\<close> returns the same response, the message \<open>'Invalid username
  or password'\<close> with status 401, and changes neither the session nor the database. More
  generally, whenever one and the same request that carries a username and a password as
  strings, the password without a surrogate, fails against two databases, the two
  responses are equal.
\<close>

lemma login_failure_uniform:
  "(carries req1 u1 p1 \<and> str_strip L u1 \<noteq> [] \<and> p1 \<noteq> [] \<and>
    filter_by_first user_username (str_strip L u1) (users s) = Inr None \<and>
    carries req2 u2 p2 \<and> str_strip L u2 \<noteq> [] \<and> p2 \<noteq> [] \<and>
    filter_by_first user_username (str_strip L u2) (users s) = Inr (Some user) \<and>
    verify_password L p2 (user_password_hash user) = Inr False
    \<longrightarrow> login L e1 POST req1 sess s
          = (Jsonify (Failure ''Invalid username or password'') 401, sess, s) \<and>
        login L e2 POST req2 sess s
          = (Jsonify (Failure ''Invalid username or password'') 401, sess, s)) \<and>
   (carries req u p \<and> \<not> has_surrogate p \<and>
    fst (login L e1 POST req sess1 s1) \<noteq> Jsonify (LoginOk ''/dashboard'') 200 \<and>
    fst (login L e2 POST req sess2 s2) \<noteq> Jsonify (LoginOk ''/dashboard'') 200
    \<longrightarrow> fst (login L e1 POST req sess1 s1) = fst (login L e2 POST req sess2 s2))"
proof (intro conjI impI)
  assume h: "carries req1 u1 p1 \<and> str_strip L u1 \<noteq> [] \<and> p1 \<noteq> [] \<and>
    filter_by_first user_username (str_strip L u1) (users s) = Inr None \<and>
    carries req2 u2 p2 \<and> str_strip L u2 \<noteq> [] \<and> p2 \<noteq> [] \<and>
    filter_by_first user_username (str_strip L u2) (users s) = Inr (Some user) \<and>
    verify_password L p2 (user_password_hash user) = Inr False"
  then show "login L e1 POST req1 sess s
          = (Jsonify (Failure ''Invalid username or password'') 401, sess, s)"
    by (simp add: login_strings [of req1 u1 p1])
  from h show "login L e2 POST req2 sess s
          = (Jsonify (Failure ''Invalid username or password'') 401, sess, s)"
    by (simp add: login_strings [of req2 u2 p2])
next
  assume h: "carries req u p \<and> \<not> has_surrogate p \<and>
    fst (login L e1 POST req sess1 s1) \<noteq> Jsonify (LoginOk ''/dashboard'') 200 \<and>
    fst (login L e2 POST req sess2 s2) \<noteq> Jsonify (LoginOk ''/dashboard'') 200"
  then have c: "carries req u p" and p: "\<not> has_surrogate p" by simp_all
  have *: "fst (login L e POST req sess s) \<noteq> Jsonify (LoginOk ''/dashboard'') 200 \<Longrightarrow>
      fst (login L e POST req sess s) =
        (if str_strip L u = [] \<or> p = []
         then Jsonify (Failure ''Username and password are required'') 400
         else if has_surrogate (str_strip L u)
         then Jsonify (Failure ''Login failed. Please try again.'') 500
         else Jsonify (Failure ''Invalid username or password'') 401)" for e sess s
    using p
    by (auto simp: login_strings [OF c] filter_by_first_def verify_password_def encode_utf8_def
        split: option.splits if_splits)
  from h show "fst (login L e1 POST req sess1 s1) = fst (login L e2 POST req sess2 s2)"
    by (simp add: *)
qed

text \<open>A JSON login of the unknown user mallory and a form login of Alice with a wrong
  password.\<close>

lemma ex_login_failure_uniform:
  "login ex_library ex_env POST
     (JsonRequest (Some (JObject [(''username'', JString ''mallory''),
                                  (''password'', JString ''guess'')])))
     ex_anonymous ex_db
     = (Jsonify (Failure ''Invalid username or password'') 401, ex_anonymous, ex_db) \<and>
   login ex_library ex_env POST (FormRequest (Some ''alice'') (Some ''guess''))
     ex_anonymous ex_db
     = (Jsonify (Failure ''Invalid username or password'') 401, ex_anonymous, ex_db)"
proof -
  have h: "carries (JsonRequest (Some (JObject [(''username'', JString ''mallory''),
                                                (''password'', JString ''guess'')])))
        ''mallory'' ''guess'' \<and>
      str_strip ex_library ''mallory'' \<noteq> [] \<and> ''guess'' \<noteq> [] \<and>
      filter_by_first user_username (str_strip ex_library ''mallory'') (users ex_db)
        = Inr None \<and>
      carries (FormRequest (Some ''alice'') (Some ''guess'')) ''alice'' ''guess'' \<and>
      str_strip ex_library ''alice'' \<noteq> [] \<and> ''guess'' \<noteq> [] \<and>
      filter_by_first user_username (str_strip ex_library ''alice'') (users ex_db)
        = Inr (Some ex_alice) \<and>
      verify_password ex_library ''guess'' (user_password_hash ex_alice) = Inr False"
    by (simp add: carries_def ex_strip_alice ex_strip_mallory ex_find_alice ex_find_mallory)
       (simp add: ex_alice_def verify_password_def ex_library_def encode_utf8_def)
  from login_failure_uniform [THEN conjunct1, rule_format, OF h]
  show ?thesis .
qed

text \<open>A password that does not encode is answered otherwise when the username is that of
  a user: \<open>verify_password\<close> raises, and \<open>login\<close> answers with status 500.\<close>

lemma ex_login_surrogate:
  "login ex_library ex_env POST
     (JsonRequest (Some (JObject [(''username'', JString ''alice''),
                                  (''password'', JString ex_lone_surrogate)])))
     ex_anonymous ex_db
     = (Jsonify (Failure ''Login failed. Please try again.'') 500, ex_anonymous, ex_db) \<and>
   login ex_library ex_env POST
     (JsonRequest (Some (JObject [(''username'', JString ''mallory''),
                                  (''password'', JString ex_lone_surrogate)])))
     ex_anonymous ex_db
     = (Jsonify (Failure ''Invalid username or password'') 401, ex_anonymous, ex_db)"
proof -
  have a: "carries (JsonRequest (Some (JObject [(''username'', JString ''alice''),
      (''password'', JString ex_lone_surrogate)]))) ''alice'' ex_lone_surrogate"
    by (simp add: carries_def)
  have m: "carries (JsonRequest (Some (JObject [(''username'', JString ''mallory''),
      (''password'', JString ex_lone_surrogate)]))) ''mallory'' ex_lone_surrogate"
    by (simp add: carries_def)
  have v: "verify_password ex_library ex_lone_surrogate h = Inl UnicodeEncodeError" for h
    by (simp add: verify_password_def encode_utf8_def ex_lone_surrogate_def)
  have ne: "ex_lone_surrogate \<noteq> []"
    by (simp add: ex_lone_surrogate_def)
  show ?thesis
    by (simp add: login_strings [OF a] login_strings [OF m] ex_strip_alice ex_strip_mallory
        ex_find_alice ex_find_mallory v ne)
qed

subsection \<open>C7: a failed login can tell whether the username exists\<close>

text \<open>
  Claim C7 states that for every pair of failed login attempts, one with an unknown
  username and one with a known username but a wrong password, \<open>login\<close> returns the same
  failure response, so that the response does not reveal whether the username exists. The
  view does so when the password is a string that encodes as UTF-8
  (\<open>login_failure_uniform\<close>). It does not for a JSON body whose password is not a string,
  for instance the number 123: the check of the required fields lets it pass, and
  \<open>verify_password\<close>, which is called only when a user with the username exists, raises on
  it; the \<open>except\<close> clause answers with the message \<open>'Login failed. Please try again.'\<close> and
  status 500, while the same body with an unknown username is answered with \<open>'Invalid
  username or password'\<close> and status 401. A password that is a string with a lone
  surrogate has the same effect (\<open>ex_login_surrogate\<close>).
\<close>

theorem login_reveals_username:
  "find (\<lambda>x. user_username x = ''alice'') (users ex_db) = Some ex_alice \<and>
   ''mallory'' \<notin> set (map user_username (users ex_db)) \<and>
   verify_password ex_library ''123'' (user_password_hash ex_alice) = Inr False \<and>
   login ex_library ex_env POST
     (JsonRequest (Some (JObject [(''username'', JString ''alice''),
                                  (''password'', JNumber 123)])))
     ex_anonymous ex_db
     = (Jsonify (Failure ''Login failed. Please try again.'') 500, ex_anonymous, ex_db) \<and>
   login ex_library ex_env POST
     (JsonRequest (Some (JObject [(''username'', JString ''mallory''),
                                  (''password'', JNumber 123)])))
     ex_anonymous ex_db
     = (Jsonify (Failure ''Invalid username or password'') 401, ex_anonymous, ex_db)"
  by (simp add: login_def login_data_def dict_get_def Let_def ex_strip_alice ex_strip_mallory
      ex_find_alice ex_find_mallory verify_password_def encode_utf8_def)
     (simp add: ex_db_def ex_alice_def ex_bob_def ex_library_def)

subsection \<open>C8: the reference id of a report\<close>



text \<open>The two readings of the clock can fall in different minutes: a report inserted at
  10:30:59.999999 whose page is rendered at 10:31:00.002500 is stored with the first time
  and gets the reference id of the second.\<close>

lemma ex_report_two_readings:
  "report_transaction ex_env_minute (ex_session 1) POST [''description'' \<mapsto> ''card charged twice'']
     ex_db =
     (Render (ReportSubmitted ''REP202403151031''),
      ex_db\<lparr>reports :=
        [\<lparr>report_id = 1, report_user_id = 1, report_report_type = ''unauthorized_transaction'',
          report_description = ''card charged twice'', report_status = ''submitted'',
          report_created_at = \<lparr>year = 2024, month = 3, day = 15,
                                hour = 10, minute = 30, second = 59, microsecond = 999999\<rparr>\<rparr>]\<rparr>)"
  by (simp add: report_transaction_def new_report_def ex_session_def ex_env_minute_def
      ex_env_def ex_db_def next_id_def strftime_YmdHM_def pad4_def pad2_def digit_def)

subsection \<open>C9: \<open>hash_password\<close> and \<open>verify_password\<close>\<close>

text \<open>The surrogates U+D800 and U+DFFF, the latter after the letter a, and three code
  points that are not surrogates: U+D7FF, U+E000 and U+1F600.\<close>

lemma has_surrogate_examples:
  "has_surrogate [CHR 0xED, CHR 0xA0, CHR 0x80]"
  "has_surrogate [CHR 0x61, CHR 0xED, CHR 0xBF, CHR 0xBF]"
  "\<not> has_surrogate [CHR 0xED, CHR 0x9F, CHR 0xBF]"
  "\<not> has_surrogate [CHR 0xEE, CHR 0x80, CHR 0x80]"
  "\<not> has_surrogate [CHR 0xF0, CHR 0x9F, CHR 0x98, CHR 0x80]"
  by simp_all

text \<open>
  Claim C9, as the code has it. The claim speaks of every password string. Both functions
  begin with \<open>password.encode('utf-8')\<close>, which raises \<open>UnicodeEncodeError\<close> on a string
  that holds a lone surrogate, so for such a password neither of them returns. What holds
  is this. For every password \<open>p\<close> that encodes as UTF-8 (a string without a lone
  surrogate), \<open>hash_password(p)\<close> returns a hash, \<open>verify_password(p, hash_password(p))\<close> is
  true, and for every stored hash \<open>h\<close>, \<open>verify_password(p, h)\<close> returns, and returns true
  if and only if \<open>h\<close> equals \<open>hash_password(p)\<close>. For a password that does not encode,
  both functions raise. A registration that succeeds stores \<open>hash_password\<close> of the
  password submitted, and a login that carries a non-blank username that the lookup
  finds and a non-empty password succeeds if and only if the stored hash of that user is
  what \<open>hash_password\<close> returns for the password carried.
\<close>

theorem verify_password_roundtrip:
  "(\<not> has_surrogate p \<longrightarrow>
      (\<exists>hp. hash_password L p = Inr hp \<and> verify_password L p hp = Inr True \<and>
            (\<forall>h. verify_password L p h = Inr (h = hp)))) \<and>
   (has_surrogate p \<longrightarrow>
      hash_password L p = Inl UnicodeEncodeError \<and>
      verify_password L p h = Inl UnicodeEncodeError) \<and>
   (register L e meth data s = (Jsonify (RegisterOk tok msg) code, s') \<longrightarrow>
      (\<exists>u0. users s' = users s @ [u0] \<and>
            hash_password L (getitem data ''password'') = Inr (user_password_hash u0))) \<and>
   (carries req u p \<and> str_strip L u \<noteq> [] \<and> p \<noteq> [] \<and>
    filter_by_first user_username (str_strip L u) (users s) = Inr (Some user) \<longrightarrow>
      (fst (login L e POST req sess s) = Jsonify (LoginOk ''/dashboard'') 200 \<longleftrightarrow>
       hash_password L p = Inr (user_password_hash user)))"
proof (intro conjI impI)
  assume "\<not> has_surrogate p"
  then show "\<exists>hp. hash_password L p = Inr hp \<and> verify_password L p hp = Inr True \<and>
            (\<forall>h. verify_password L p h = Inr (h = hp))"
    by (auto simp: verify_password_def hash_password_def encode_utf8_def)
next
  assume "has_surrogate p"
  then show "hash_password L p = Inl UnicodeEncodeError"
    and "verify_password L p h = Inl UnicodeEncodeError"
    by (simp_all add: verify_password_def hash_password_def encode_utf8_def)
next
  assume ok: "register L e meth data s = (Jsonify (RegisterOk tok msg) code, s')"
  from register_success [OF ok]
  show "\<exists>u0. users s' = users s @ [u0] \<and>
            hash_password L (getitem data ''password'') = Inr (user_password_hash u0)"
    by (auto simp: new_user_def)
next
  assume h: "carries req u p \<and> str_strip L u \<noteq> [] \<and> p \<noteq> [] \<and>
    filter_by_first user_username (str_strip L u) (users s) = Inr (Some user)"
  then have c: "carries req u p" by simp
  from h show "fst (login L e POST req sess s) = Jsonify (LoginOk ''/dashboard'') 200 \<longleftrightarrow>
       hash_password L p = Inr (user_password_hash user)"
    by (auto simp: login_strings [OF c] verify_password_def hash_password_def
        split: sum.splits)
qed

text \<open>Alice logs in with her password, and with another one.\<close>

theorem verify_password_roundtrip_witness:
  "fst (login ex_library ex_env POST (FormRequest (Some ''alice'') (Some ''correct horse''))
          ex_anonymous ex_db) = Jsonify (LoginOk ''/dashboard'') 200 \<and>
   fst (login ex_library ex_env POST (FormRequest (Some ''alice'') (Some ''correct house''))
          ex_anonymous ex_db) \<noteq> Jsonify (LoginOk ''/dashboard'') 200 \<and>
   verify_password ex_library ''correct horse'' (user_password_hash ex_alice) = Inr True \<and>
   verify_password ex_library ''correct house'' (user_password_hash ex_alice) = Inr False"
proof -
  have good: "carries (FormRequest (Some ''alice'') (Some ''correct horse''))
        ''alice'' ''correct horse'' \<and>
      str_strip ex_library ''alice'' \<noteq> [] \<and> ''correct horse'' \<noteq> [] \<and>
      filter_by_first user_username (str_strip ex_library ''alice'') (users ex_db)
        = Inr (Some ex_alice)"
    by (simp add: carries_def ex_strip_alice ex_find_alice)
  have bad: "carries (FormRequest (Some ''alice'') (Some ''correct house''))
        ''alice'' ''correct house'' \<and>
      str_strip ex_library ''alice'' \<noteq> [] \<and> ''correct house'' \<noteq> [] \<and>
      filter_by_first user_username (str_strip ex_library ''alice'') (users ex_db)
        = Inr (Some ex_alice)"
    by (simp add: carries_def ex_strip_alice ex_find_alice)
  have stored: "hash_password ex_library ''correct horse'' = Inr (user_password_hash ex_alice)"
    by (simp add: ex_alice_def hash_password_def encode_utf8_def)
  have other: "hash_password ex_library ''correct house'' \<noteq> Inr (user_password_hash ex_alice)"
    by (simp add: ex_alice_def hash_password_def encode_utf8_def ex_library_def)
  have enc: "\<not> has_surrogate ''correct horse''" "\<not> has_surrogate ''correct house''"
    by simp_all
  note t1 = verify_password_roundtrip [of "''correct horse''" ex_library "[]" ex_env GET
      Map.empty ex_db "[]" "[]" 0 ex_db
      "FormRequest (Some ''alice'') (Some ''correct horse'')" "''alice''" ex_alice ex_anonymous]
  note t2 = verify_password_roundtrip [of "''correct house''" ex_library "[]" ex_env GET
      Map.empty ex_db "[]" "[]" 0 ex_db
      "FormRequest (Some ''alice'') (Some ''correct house'')" "''alice''" ex_alice ex_anonymous]
  from t1 good stored
  have 1: "fst (login ex_library ex_env POST (FormRequest (Some ''alice'') (Some ''correct horse''))
          ex_anonymous ex_db) = Jsonify (LoginOk ''/dashboard'') 200"
    by blast
  from t2 bad other
  have 2: "fst (login ex_library ex_env POST (FormRequest (Some ''alice'') (Some ''correct house''))
          ex_anonymous ex_db) \<noteq> Jsonify (LoginOk ''/dashboard'') 200"
    by blast
  from t1 enc(1) stored
  have 3: "verify_password ex_library ''correct horse'' (user_password_hash ex_alice) = Inr True"
    by auto
  from t2 enc(2) other
  have 4: "verify_password ex_library ''correct house'' (user_password_hash ex_alice) = Inr False"
    by auto
  from 1 2 3 4 show ?thesis by simp
qed

text \<open>The password that is the one code point U+D800 is a string; \<open>hash_password\<close> raises
  on it, and so does \<open>verify_password\<close>, whatever the hash: \<open>verify_password(p,
  hash_password(p))\<close> does not return true. A login of Alice that carries it is answered
  with status 500.\<close>

theorem verify_password_surrogate:
  "has_surrogate ex_lone_surrogate \<and>
   hash_password ex_library ex_lone_surrogate = Inl UnicodeEncodeError \<and>
   (case hash_password ex_library ex_lone_surrogate of
      Inl x \<Rightarrow> Inl x
    | Inr hp \<Rightarrow> verify_password ex_library ex_lone_surrogate hp) \<noteq> Inr True \<and>
   verify_password ex_library ex_lone_surrogate (user_password_hash ex_alice)
     = Inl UnicodeEncodeError \<and>
   login ex_library ex_env POST
     (JsonRequest (Some (JObject [(''username'', JString ''alice''),
                                  (''password'', JString ex_lone_surrogate)])))
     ex_anonymous ex_db
     = (Jsonify (Failure ''Login failed. Please try again.'') 500, ex_anonymous, ex_db)"
proof -
  have s: "has_surrogate ex_lone_surrogate"
    by (simp add: ex_lone_surrogate_def)
  have h: "hash_password ex_library ex_lone_surrogate = Inl UnicodeEncodeError"
    using s by (simp add: hash_password_def encode_utf8_def)
  have v: "verify_password ex_library ex_lone_surrogate (user_password_hash ex_alice)
      = Inl UnicodeEncodeError"
    using s by (simp add: verify_password_def encode_utf8_def)
  from s h v ex_login_surrogate show ?thesis
    by simp
qed

subsection \<open>C10: a withdrawal that is not permitted changes nothing\<close>

text \<open>
  Claim C10. For every call of \<open>withdraw_policy\<close> by a logged-in user on an existing policy
  that this user does not own, or that is not withdrawable at the instant of the call, the
  call raises no error (it answers with the redirect to \<open>/my-policies\<close>, as a permitted
  withdrawal does) and the database is returned as it was, so every field of the policy,
  its status included, is unchanged.
\<close>

theorem withdraw_policy_gated:
  assumes "session_user_id sess = Some uid"
    and "query_get policy_id (policies s) pid = Some p"
    and "policy_user_id p \<noteq> uid \<or> \<not> is_withdrawable e p"
  shows "withdraw_policy e sess pid s = (Redirect ''/my-policies'', s) \<and>
         query_get policy_id (policies (snd (withdraw_policy e sess pid s))) pid = Some p"
proof -
  have "withdraw_policy e sess pid s = (Redirect ''/my-policies'', s)"
    using assms by (auto simp: withdraw_policy_def)
  then show ?thesis using assms(2) by simp
qed

text \<open>Bob tries to withdraw Alice's policy within the window, and Alice tries when the
  window has closed.\<close>

theorem withdraw_policy_gated_witness:
  "withdraw_policy (ex_env\<lparr>datetime_utcnow := ex_in_window\<rparr>) (ex_session 2) 1 ex_db_applied
     = (Redirect ''/my-policies'', ex_db_applied) \<and>
   withdraw_policy (ex_env\<lparr>datetime_utcnow := ex_expired\<rparr>) (ex_session 1) 1 ex_db_applied
     = (Redirect ''/my-policies'', ex_db_applied)"
proof -
  have bob: "session_user_id (ex_session 2) = Some 2"
    by (simp add: ex_session_def)
  have alice: "session_user_id (ex_session 1) = Some 1"
    by (simp add: ex_session_def)
  have not_owner: "policy_user_id ex_policy \<noteq> 2 \<or>
      \<not> is_withdrawable (ex_env\<lparr>datetime_utcnow := ex_in_window\<rparr>) ex_policy"
    by (simp add: ex_policy_def)
  have expired: "policy_user_id ex_policy \<noteq> 1 \<or>
      \<not> is_withdrawable (ex_env\<lparr>datetime_utcnow := ex_expired\<rparr>) ex_policy"
    by (simp add: is_withdrawable_def total_seconds_less ex_policy_def ex_elapsed_expired)
  show ?thesis
    using withdraw_policy_gated [OF bob ex_query_get_policy not_owner]
      withdraw_policy_gated [OF alice ex_query_get_policy expired]
    by simp
qed

end
